theory Spec2Isabelle
  imports Complex_Main
begin

section \<open>Data model of the proxy\<close>

text \<open>
  The proxy (\<^verbatim>\<open>optimized_streaming_proxy.py\<close>) accepts Anthropic-style requests and serves
  them by calling an OpenAI-style backend, running the tools the backend asks for.
  Python dictionaries of a fixed shape are records or datatypes here. Python \<^verbatim>\<open>str\<close> is
  \<open>string\<close>, its characters read as code points below 256. JSON that the proxy inspects
  key by key, copies or hands on is a value of type \<open>json\<close>. The debug log, the pauses
  (\<^verbatim>\<open>time.sleep\<close>) and the HTTP headers are left out; what is written to the client and
  what is sent to the backend is recorded in the \<open>session\<close> below.
\<close>

text \<open>
  A parsed JSON value as Python holds it: \<^verbatim>\<open>None\<close>, a \<^verbatim>\<open>bool\<close>, an \<^verbatim>\<open>int\<close>, a \<^verbatim>\<open>float\<close> (by
  its value), a \<^verbatim>\<open>str\<close>, a \<^verbatim>\<open>list\<close> or a \<^verbatim>\<open>dict\<close> (its items; a key occurs once).
\<close>

datatype json =
    JNull
  | JBool bool
  | JInt int
  | JFloat rat
  | JStr string
  | JArr "json list"
  | JObj "(string \<times> json) list"

text \<open>\<^verbatim>\<open>type(v).__name__\<close>.\<close>

fun type_name :: "json \<Rightarrow> string" where
  "type_name JNull = ''NoneType''"
| "type_name (JBool b) = ''bool''"
| "type_name (JInt n) = ''int''"
| "type_name (JFloat x) = ''float''"
| "type_name (JStr s) = ''str''"
| "type_name (JArr vs) = ''list''"
| "type_name (JObj kvs) = ''dict''"

text \<open>
  A key of a dictionary with a fixed shape: missing, there with the value \<^verbatim>\<open>null\<close>, or there
  with a value. \<open>dict_get f d\<close> is \<^verbatim>\<open>dict.get(key, d)\<close>, with \<open>None\<close> for Python's \<^verbatim>\<open>None\<close>:
  the default stands in for a missing key only.
\<close>

datatype 'a field = Absent | Null | Value 'a

fun dict_get :: "'a field \<Rightarrow> 'a \<Rightarrow> 'a option" where
  "dict_get Absent d = Some d"
| "dict_get Null d = None"
| "dict_get (Value x) d = Some x"

subsection \<open>Exceptions\<close>

text \<open>
  The exceptions that the orchestration can raise: \<^verbatim>\<open>IndexError\<close> of \<^verbatim>\<open>[-1]\<close> on an empty
  list, \<^verbatim>\<open>AttributeError\<close> of \<^verbatim>\<open>.get\<close> on a value of the named type, \<^verbatim>\<open>KeyError\<close> of a
  missing key, \<^verbatim>\<open>TypeError\<close> of \<^verbatim>\<open>' '.join\<close> on an item (its index, its type) that is not a
  string, and the \<^verbatim>\<open>JSONDecodeError\<close> of \<^verbatim>\<open>json.loads\<close> with its message.
\<close>

datatype error =
    IndexError
  | AttributeError string
  | KeyError string
  | TypeError nat string
  | JSONDecodeError string

fun decimal :: "nat \<Rightarrow> string" where
  "decimal n = (if n < 10 then [char_of (48 + n)] else decimal (n div 10) @ [char_of (48 + n mod 10)])"

declare decimal.simps [simp del]

text \<open>\<^verbatim>\<open>str(e)\<close>.\<close>

fun error_text :: "error \<Rightarrow> string" where
  "error_text IndexError = ''list index out of range''"
| "error_text (AttributeError ty) =
     [CHR 0x27] @ ty @ [CHR 0x27] @ '' object has no attribute '' @ [CHR 0x27] @ ''get'' @ [CHR 0x27]"
| "error_text (KeyError k) = [CHR 0x27] @ k @ [CHR 0x27]"
| "error_text (TypeError i ty) =
     ''sequence item '' @ decimal i @ '': expected str instance, '' @ ty @ '' found''"
| "error_text (JSONDecodeError m) = m"

subsection \<open>Front (Anthropic) request\<close>

text \<open>
  The content of a front message is a string or a list; the items of the list are the
  JSON values that the request carries, whatever their shape.
\<close>

datatype msg_content = Text string | Items "json list"

record message =
  role :: string
  content :: msg_content

text \<open>A tool declaration is a dictionary; each of the three keys the proxy looks at may be absent.\<close>

record tool =
  tool_name :: "string option"
  tool_description :: "string option"
  tool_input_schema :: "json option"

record anthropic_request =
  messages :: "message list"
  tools :: "tool list"
  stream :: bool
  max_tokens :: "int option"
  temperature :: "rat option"

subsection \<open>Back (OpenAI) protocol\<close>

record function_decl =
  fn_name :: string
  fn_description :: string
  fn_parameters :: json

record openai_tool =
  decl_type :: string
  decl_function :: function_decl

text \<open>
  A tool call of a backend response: \<^verbatim>\<open>tc['id']\<close>, \<^verbatim>\<open>tc['function']['name']\<close> and
  \<^verbatim>\<open>tc['function']['arguments']\<close>, the last one a string that is meant to hold JSON.
\<close>

record tool_call =
  call_id :: string
  call_name :: string
  call_arguments :: string

text \<open>
  An entry of \<^verbatim>\<open>conversation_messages\<close>: a converted front message
  \<^verbatim>\<open>{'role', 'content'}\<close>, an assistant entry \<^verbatim>\<open>{'role': 'assistant', 'content', 'tool_calls'}\<close>
  or a tool entry \<^verbatim>\<open>{'role': 'tool', 'tool_call_id', 'content'}\<close>. The content of an
  assistant entry is \<open>None\<close> when the backend sent JSON null.
\<close>

datatype entry =
    Converted string string
  | Assistant "string option" "tool_call list option"
  | ToolEntry string string

fun entry_role :: "entry \<Rightarrow> string" where
  "entry_role (Converted r c) = r"
| "entry_role (Assistant c tcs) = ''assistant''"
| "entry_role (ToolEntry i c) = ''tool''"

text \<open>\<^verbatim>\<open>entry.get('content', '')\<close>: every entry has the key.\<close>

fun entry_content :: "entry \<Rightarrow> string option" where
  "entry_content (Converted r c) = Some c"
| "entry_content (Assistant c tcs) = c"
| "entry_content (ToolEntry i c) = Some c"

text \<open>The \<^verbatim>\<open>usage\<close> object of a backend response.\<close>

record usage_counts =
  prompt_tokens :: "int field"
  completion_tokens :: "int field"

text \<open>
  A parsed backend response: the \<^verbatim>\<open>content\<close> key of \<^verbatim>\<open>response['choices'][0]['message']\<close>,
  its \<^verbatim>\<open>tool_calls\<close> as \<^verbatim>\<open>message.get('tool_calls')\<close> reads them (\<open>None\<close> when the key is
  missing or null), and the \<^verbatim>\<open>usage\<close> key of the response.
\<close>

record response =
  resp_content :: "string field"
  resp_tool_calls :: "tool_call list option"
  resp_usage :: "usage_counts field"

record payload =
  pl_model :: string
  pl_messages :: "entry list"
  pl_max_tokens :: int
  pl_temperature :: rat
  pl_tools :: "openai_tool list option"

text \<open>
  What \<^verbatim>\<open>requests.post\<close> does: it times out, raises something else, or returns a status
  code with a body that \<^verbatim>\<open>response.json()\<close> parses to a chat completion (\<open>Some\<close>) or that
  makes it raise (\<open>None\<close>).
\<close>

datatype http_result =
    Timeout
  | RequestException string
  | Status nat "response option"

subsection \<open>Front response and protocol frames\<close>

record text_block =
  block_type :: string
  block_text :: "string option"

text \<open>The usage block of the front response; \<open>None\<close> is JSON null.\<close>

record final_usage =
  input_tokens :: "int option"
  output_tokens :: "int option"

record final_response =
  fr_id :: string
  fr_type :: string
  fr_role :: string
  fr_content :: "text_block list"
  fr_model :: string
  fr_stop_reason :: string
  fr_usage :: final_usage

text \<open>
  The text of a \<^verbatim>\<open>text_delta\<close>. The progress notifications start with an emoji, a code point
  that \<open>string\<close> does not have, so they stay symbolic: \<^verbatim>\<open>"Starting..."\<close>,
  \<^verbatim>\<open>"Thinking (step {iteration})..."\<close>, \<^verbatim>\<open>"Executing {tool_list}..."\<close> and
  \<^verbatim>\<open>"{tool_name} ({i+1}/{len(tool_calls)})..."\<close>. Every other delta carries a plain string.
\<close>

datatype delta_text =
    Starting
  | Thinking nat
  | Executing "string list"
  | ToolProgress string nat nat
  | Plain string

text \<open>The events handed to \<^verbatim>\<open>_send_event\<close>, by event type.\<close>

datatype frame =
    MessageStart string
  | ContentBlockStart
  | ContentBlockDelta delta_text
  | ContentBlockStop
  | MessageDelta string final_usage
  | MessageStop
  | ErrorFrame string

fun is_delta :: "frame \<Rightarrow> bool" where
  "is_delta (ContentBlockDelta t) = True"
| "is_delta f = False"

section \<open>Schema translation\<close>

subsection \<open>Strings\<close>

text \<open>\<^verbatim>\<open>sep.join(parts)\<close>.\<close>

fun str_join :: "string \<Rightarrow> string list \<Rightarrow> string" where
  "str_join sep [] = []"
| "str_join sep [x] = x"
| "str_join sep (x # y # ys) = x @ sep @ str_join sep (y # ys)"

text \<open>
  \<^verbatim>\<open>str.isspace\<close> on one character, for the code points below 256: the ASCII controls
  9 to 13 and 28 to 31, the space, and the Latin-1 characters 133 and 160.
\<close>

definition isspace :: "char \<Rightarrow> bool" where
  "isspace c =
     (let n = (of_char c :: nat)
      in (9 \<le> n \<and> n \<le> 13) \<or> (28 \<le> n \<and> n \<le> 32) \<or> n = 133 \<or> n = 160)"

text \<open>
  \<^verbatim>\<open>text.split()\<close> with no separator: runs of whitespace separate the words, and no empty
  word is produced. \<open>split_words w cs\<close> scans \<open>cs\<close> with the word \<open>w\<close> read so far.
\<close>

fun split_words :: "string \<Rightarrow> string \<Rightarrow> string list" where
  "split_words w [] = (if w = [] then [] else [w])"
| "split_words w (c # cs) =
     (if isspace c then (if w = [] then split_words [] cs else w # split_words [] cs)
      else split_words (w @ [c]) cs)"

definition str_split :: "string \<Rightarrow> string list" where
  "str_split text = split_words [] text"

subsection \<open>Messages\<close>

text \<open>
  \<^verbatim>\<open>_convert_messages_to_openai\<close>. \<open>str_of\<close> is Python's \<^verbatim>\<open>str\<close> on a JSON value that is not
  a string; on a string \<^verbatim>\<open>str\<close> is the identity.
\<close>

definition py_str_of :: "(json \<Rightarrow> string) \<Rightarrow> json \<Rightarrow> string" where
  "py_str_of str_of v = (case v of JStr s \<Rightarrow> s | _ \<Rightarrow> str_of v)"

text \<open>
  \<^verbatim>\<open>[str(c.get('text', c)) for c in result_content]\<close>, with the list built so far:
  \<^verbatim>\<open>c.get\<close> raises on an element that is not a dictionary.
\<close>

fun result_strs :: "(json \<Rightarrow> string) \<Rightarrow> string list \<Rightarrow> json list \<Rightarrow> error + string list" where
  "result_strs str_of strs [] = Inr strs"
| "result_strs str_of strs (c # cs) =
     (case c of
        JObj kvs \<Rightarrow>
          result_strs str_of
            (strs @ [py_str_of str_of (case map_of kvs ''text'' of None \<Rightarrow> c | Some t \<Rightarrow> t)]) cs
      | _ \<Rightarrow> Inl (AttributeError (type_name c)))"

text \<open>
  The inner loop over the items of one message, with \<^verbatim>\<open>text_parts\<close> as accumulator.
  \<^verbatim>\<open>item.get\<close> raises on an item that is not a dictionary and \<^verbatim>\<open>item['text']\<close> on a text item
  without the key; what a text item holds under \<^verbatim>\<open>text\<close> is appended as it is.
\<close>

fun collect_text_parts :: "(json \<Rightarrow> string) \<Rightarrow> json list \<Rightarrow> json list \<Rightarrow> error + json list" where
  "collect_text_parts str_of text_parts [] = Inr text_parts"
| "collect_text_parts str_of text_parts (item # items) =
     (case item of
        JObj kvs \<Rightarrow>
          (if map_of kvs ''type'' = Some (JStr ''text'') then
             (case map_of kvs ''text'' of
                None \<Rightarrow> Inl (KeyError ''text'')
              | Some t \<Rightarrow> collect_text_parts str_of (text_parts @ [t]) items)
           else if map_of kvs ''type'' = Some (JStr ''tool_result'') then
             (case (case map_of kvs ''content'' of None \<Rightarrow> JStr '''' | Some c \<Rightarrow> c) of
                JArr cs \<Rightarrow>
                  (case result_strs str_of [] cs of
                     Inl err \<Rightarrow> Inl err
                   | Inr strs \<Rightarrow>
                       collect_text_parts str_of
                         (text_parts @ [JStr (''Tool result: '' @ str_join '' '' strs)]) items)
              | result_content \<Rightarrow>
                  collect_text_parts str_of
                    (text_parts @ [JStr (''Tool result: '' @ py_str_of str_of result_content)]) items)
           else collect_text_parts str_of text_parts items)
      | _ \<Rightarrow> Inl (AttributeError (type_name item)))"

text \<open>
  \<^verbatim>\<open>' '.join(text_parts)\<close>: a \<^verbatim>\<open>TypeError\<close> at the first part that is not a string.
  \<open>join_strs i strs parts\<close> has checked the \<open>i\<close> parts before \<open>parts\<close>.
\<close>

fun join_strs :: "nat \<Rightarrow> string list \<Rightarrow> json list \<Rightarrow> error + string" where
  "join_strs i strs [] = Inr (str_join '' '' strs)"
| "join_strs i strs (p # parts) =
     (case p of
        JStr s \<Rightarrow> join_strs (i + 1) (strs @ [s]) parts
      | _ \<Rightarrow> Inl (TypeError i (type_name p)))"

text \<open>The outer loop, with \<^verbatim>\<open>openai_messages\<close> as accumulator.\<close>

fun convert_messages_loop :: "(json \<Rightarrow> string) \<Rightarrow> entry list \<Rightarrow> message list \<Rightarrow> error + entry list" where
  "convert_messages_loop str_of openai_messages [] = Inr openai_messages"
| "convert_messages_loop str_of openai_messages (msg # msgs) =
     (case content msg of
        Items items \<Rightarrow>
          (case collect_text_parts str_of [] items of
             Inl err \<Rightarrow> Inl err
           | Inr text_parts \<Rightarrow>
               (if text_parts \<noteq> [] then
                  (case join_strs 0 [] text_parts of
                     Inl err \<Rightarrow> Inl err
                   | Inr joined \<Rightarrow>
                       convert_messages_loop str_of
                         (openai_messages @
                            [Converted (if role msg = ''user'' then ''user'' else role msg) joined])
                         msgs)
                else convert_messages_loop str_of openai_messages msgs))
      | Text s \<Rightarrow>
          convert_messages_loop str_of (openai_messages @ [Converted (role msg) s]) msgs)"

definition convert_messages_to_openai :: "(json \<Rightarrow> string) \<Rightarrow> message list \<Rightarrow> error + entry list" where
  "convert_messages_to_openai str_of msgs = convert_messages_loop str_of [] msgs"

subsection \<open>Tools\<close>

text \<open>\<^verbatim>\<open>_convert_tools_to_openai\<close>, with \<^verbatim>\<open>openai_tools\<close> as accumulator.\<close>

fun convert_tools_loop :: "openai_tool list \<Rightarrow> tool list \<Rightarrow> openai_tool list" where
  "convert_tools_loop openai_tools [] = openai_tools"
| "convert_tools_loop openai_tools (t # ts) =
     (case (tool_name t, tool_input_schema t) of
        (Some n, Some schema) \<Rightarrow>
          convert_tools_loop
            (openai_tools @
               [\<lparr>decl_type = ''function'',
                 decl_function =
                   \<lparr>fn_name = n,
                    fn_description = (case tool_description t of None \<Rightarrow> '''' | Some d \<Rightarrow> d),
                    fn_parameters = schema\<rparr>\<rparr>]) ts
      | _ \<Rightarrow> convert_tools_loop openai_tools ts)"

definition convert_tools_to_openai :: "tool list \<Rightarrow> openai_tool list" where
  "convert_tools_to_openai ts = convert_tools_loop [] ts"

section \<open>Tool execution\<close>

text \<open>
  Everything outside the process that a request touches:
  \<^item> \<open>post n p\<close>: the \<open>n\<close>-th \<^verbatim>\<open>requests.post\<close> of the request, sent with payload \<open>p\<close>;
  \<^item> \<open>json_loads\<close>: \<^verbatim>\<open>json.loads\<close>, \<open>Inl\<close> the message of the \<^verbatim>\<open>JSONDecodeError\<close> it raises;
  \<^item> \<open>tool_body name input\<close>: the branch of \<^verbatim>\<open>execute_tool_locally\<close> for one of the six
    tools, run on the file system: the text it returns (its own handlers included), or
    \<open>Inl\<close> the \<^verbatim>\<open>str(e)\<close> of an exception that leaves the branch;
  \<^item> \<open>py_str\<close>: \<^verbatim>\<open>str\<close> on JSON values that are not strings;
  \<^item> \<open>new_message_id\<close>: the identifier built from \<^verbatim>\<open>uuid.uuid4()\<close>.
\<close>

record env =
  post :: "nat \<Rightarrow> payload \<Rightarrow> http_result"
  json_loads :: "string \<Rightarrow> string + json"
  tool_body :: "string \<Rightarrow> json \<Rightarrow> string + string"
  py_str :: "json \<Rightarrow> string"
  new_message_id :: string

definition implemented_tools :: "string list" where
  "implemented_tools = [''LS'', ''Read'', ''Write'', ''Edit'', ''Bash'', ''Glob'']"

text \<open>
  \<^verbatim>\<open>execute_tool_locally\<close>: the outer \<^verbatim>\<open>try\<close> turns every exception of a branch into text,
  and a name outside the six tools gets the "not implemented" text.
\<close>

definition execute_tool_locally :: "env \<Rightarrow> string \<Rightarrow> json \<Rightarrow> string" where
  "execute_tool_locally e name tool_input =
     (if name \<in> set implemented_tools
      then (case tool_body e name tool_input of
              Inr text \<Rightarrow> text
            | Inl msg \<Rightarrow> ''Error executing tool '' @ name @ '': '' @ msg)
      else ''Tool '' @ [CHR 0x27] @ name @ [CHR 0x27] @ '' is not implemented in local execution'')"

section \<open>Orchestration\<close>

definition MAX_TOOL_ITERATIONS :: nat where
  "MAX_TOOL_ITERATIONS = 15"

text \<open>
  What a request leaves outside its own variables: the events sent through
  \<^verbatim>\<open>_send_event\<close> to the client, oldest first, the payloads posted to the backend and the
  tool executions, both in order. A failed write to the client is swallowed by
  \<^verbatim>\<open>_send_event\<close> and is not modelled.
\<close>

record session =
  frames :: "frame list"
  posted :: "payload list"
  executed :: "(string \<times> json) list"

definition new_session :: session where
  "new_session = \<lparr>frames = [], posted = [], executed = []\<rparr>"

definition send_event :: "frame \<Rightarrow> session \<Rightarrow> session" where
  "send_event f s = s\<lparr>frames := frames s @ [f]\<rparr>"

definition send_progress_update :: "delta_text \<Rightarrow> session \<Rightarrow> session" where
  "send_progress_update t s = send_event (ContentBlockDelta t) s"

subsection \<open>Backend client\<close>

definition groq_payload :: "entry list \<Rightarrow> openai_tool list \<Rightarrow> anthropic_request \<Rightarrow> payload" where
  "groq_payload msgs ts req =
     \<lparr>pl_model = ''moonshotai/kimi-k2-instruct'',
      pl_messages = msgs,
      pl_max_tokens = min (case max_tokens req of None \<Rightarrow> 4096 | Some m \<Rightarrow> m) 16384,
      pl_temperature = (case temperature req of None \<Rightarrow> 7 / 10 | Some t \<Rightarrow> t),
      pl_tools = (if ts \<noteq> [] then Some ts else None)\<rparr>"

text \<open>\<^verbatim>\<open>_call_groq_api\<close>, as the \<open>n\<close>-th call of the request: only a 200 whose body parses is a response.\<close>

definition call_groq_api ::
  "env \<Rightarrow> nat \<Rightarrow> entry list \<Rightarrow> openai_tool list \<Rightarrow> anthropic_request \<Rightarrow> session \<Rightarrow> response option \<times> session" where
  "call_groq_api e n msgs ts req s =
     (let p = groq_payload msgs ts req;
          s' = s\<lparr>posted := posted s @ [p]\<rparr>
      in case post e n p of
           Status code body \<Rightarrow> (if code = 200 then (body, s') else (None, s'))
         | Timeout \<Rightarrow> (None, s')
         | RequestException msg \<Rightarrow> (None, s'))"

subsection \<open>Tool loop\<close>

text \<open>
  The \<^verbatim>\<open>for i, tool_call in enumerate(tool_calls)\<close> loop; \<open>n\<close> is \<^verbatim>\<open>len(tool_calls)\<close> and
  \<open>i\<close> the index of the head of the remaining calls. \<^verbatim>\<open>json.loads\<close> is outside every
  \<^verbatim>\<open>try\<close>, so its exception leaves the loop.
\<close>

fun execute_tool_calls ::
  "env \<Rightarrow> nat \<Rightarrow> nat \<Rightarrow> tool_call list \<Rightarrow> entry list \<Rightarrow> session \<Rightarrow> (error + entry list) \<times> session" where
  "execute_tool_calls e n i [] conv s = (Inr conv, s)"
| "execute_tool_calls e n i (tc # tcs) conv s =
     (case json_loads e (call_arguments tc) of
        Inl msg \<Rightarrow> (Inl (JSONDecodeError msg), s)
      | Inr tool_args \<Rightarrow>
          (let s1 = (if n > 1 then send_progress_update (ToolProgress (call_name tc) (i + 1) n) s else s);
               tool_result = execute_tool_locally e (call_name tc) tool_args;
               s2 = s1\<lparr>executed := executed s1 @ [(call_name tc, tool_args)]\<rparr>
           in execute_tool_calls e n (i + 1) tcs (conv @ [ToolEntry (call_id tc) tool_result]) s2))"

text \<open>\<^verbatim>\<open>if message.get('tool_calls')\<close>: a list that is there and not empty.\<close>

fun requested_calls :: "tool_call list option \<Rightarrow> tool_call list" where
  "requested_calls None = []"
| "requested_calls (Some tcs) = tcs"

text \<open>The variables of \<^verbatim>\<open>_process_conversation_with_streaming\<close> that the loop changes.\<close>

record locals =
  conversation_messages :: "entry list"
  iteration :: nat
  total_tool_calls :: nat
  last_response :: "response option"

text \<open>
  The \<^verbatim>\<open>while iteration < MAX_TOOL_ITERATIONS\<close> loop. It returns the variables at its exit,
  or the exception that left it.
\<close>

function conversation_loop ::
  "env \<Rightarrow> anthropic_request \<Rightarrow> openai_tool list \<Rightarrow> locals \<Rightarrow> session \<Rightarrow> (error + locals) \<times> session" where
  "conversation_loop e req ts v s =
     (if iteration v < MAX_TOOL_ITERATIONS then
        (let it = iteration v + 1;
             s1 = send_progress_update (Thinking it) s;
             (resp, s2) = call_groq_api e it (conversation_messages v) ts req s1
         in case resp of
              None \<Rightarrow> (Inr (v\<lparr>iteration := it, last_response := None\<rparr>), s2)
            | Some r \<Rightarrow>
                (let conv = conversation_messages v @
                       [Assistant (dict_get (resp_content r) []) (resp_tool_calls r)];
                     tool_calls = requested_calls (resp_tool_calls r)
                 in if tool_calls \<noteq> [] then
                      (let total = total_tool_calls v + length tool_calls;
                           s3 = send_progress_update (Executing (map call_name tool_calls)) s2
                       in case execute_tool_calls e (length tool_calls) 0 tool_calls conv s3 of
                            (Inl err, s4) \<Rightarrow> (Inl err, s4)
                          | (Inr conv', s4) \<Rightarrow>
                              conversation_loop e req ts
                                \<lparr>conversation_messages = conv', iteration = it,
                                 total_tool_calls = total, last_response = Some r\<rparr> s4)
                    else
                      (Inr \<lparr>conversation_messages = conv, iteration = it,
                            total_tool_calls = total_tool_calls v, last_response = Some r\<rparr>, s2)))
      else (Inr v, s))"
  by pat_completeness auto
termination
  by (relation "measure (\<lambda>(e, req, ts, v, s). MAX_TOOL_ITERATIONS - iteration v)") auto

declare conversation_loop.simps [simp del]

text \<open>\<^verbatim>\<open>conversation_messages[-1]\<close>: an \<^verbatim>\<open>IndexError\<close> on the empty list.\<close>

fun last_message :: "entry list \<Rightarrow> error + entry" where
  "last_message [] = Inl IndexError"
| "last_message (x # xs) = Inr (last (x # xs))"

text \<open>
  \<^verbatim>\<open>_process_conversation_with_streaming\<close>. After the loop \<^verbatim>\<open>response\<close> is the value of the
  last backend call, and \<^verbatim>\<open>response.get\<close> raises \<^verbatim>\<open>AttributeError\<close> when that is \<^verbatim>\<open>None\<close>;
  so does \<^verbatim>\<open>response.get('usage', {}).get\<close> when the response has a null \<^verbatim>\<open>usage\<close>.
\<close>

definition process_conversation_with_streaming ::
  "env \<Rightarrow> anthropic_request \<Rightarrow> string \<Rightarrow> session \<Rightarrow> (error + final_response) \<times> session" where
  "process_conversation_with_streaming e req message_id s =
     (let s0 = send_progress_update Starting s
      in case convert_messages_to_openai (py_str e) (messages req) of
           Inl err \<Rightarrow> (Inl err, s0)
         | Inr conv \<Rightarrow>
             (case conversation_loop e req (convert_tools_to_openai (tools req))
                     \<lparr>conversation_messages = conv, iteration = 0, total_tool_calls = 0,
                      last_response = None\<rparr> s0 of
                (Inl err, s') \<Rightarrow> (Inl err, s')
              | (Inr v, s') \<Rightarrow>
                  (case last_message (conversation_messages v) of
                     Inl err \<Rightarrow> (Inl err, s')
                   | Inr final_message \<Rightarrow>
                       (case last_response v of
                          None \<Rightarrow> (Inl (AttributeError ''NoneType''), s')
                        | Some r \<Rightarrow>
                            (case dict_get (resp_usage r)
                                    \<lparr>prompt_tokens = Absent, completion_tokens = Absent\<rparr> of
                               None \<Rightarrow> (Inl (AttributeError ''NoneType''), s')
                             | Some u \<Rightarrow>
                                 (Inr \<lparr>fr_id = message_id,
                                       fr_type = ''message'',
                                       fr_role = ''assistant'',
                                       fr_content =
                                         [\<lparr>block_type = ''text'',
                                           block_text = entry_content final_message\<rparr>],
                                       fr_model = ''moonshotai/kimi-k2-instruct'',
                                       fr_stop_reason = ''end_turn'',
                                       fr_usage =
                                         \<lparr>input_tokens = dict_get (prompt_tokens u) 100,
                                          output_tokens = dict_get (completion_tokens u) 50\<rparr>\<rparr>,
                                  s'))))))"

definition execute_complete_conversation ::
  "env \<Rightarrow> anthropic_request \<Rightarrow> session \<Rightarrow> (error + final_response) \<times> session" where
  "execute_complete_conversation e req s =
     process_conversation_with_streaming e req (new_message_id e) s"

subsection \<open>Streaming the answer\<close>

text \<open>\<^verbatim>\<open>_extract_text_from_response\<close>: the text of the first block of type \<^verbatim>\<open>text\<close>.\<close>

fun extract_text_from_response_loop :: "text_block list \<Rightarrow> string option" where
  "extract_text_from_response_loop [] = Some ''''"
| "extract_text_from_response_loop (b # bs) =
     (if block_type b = ''text'' then block_text b else extract_text_from_response_loop bs)"

definition extract_text_from_response :: "final_response \<Rightarrow> string option" where
  "extract_text_from_response r = extract_text_from_response_loop (fr_content r)"

text \<open>
  The \<^verbatim>\<open>for i, word in enumerate(words)\<close> loop of \<^verbatim>\<open>_stream_text_naturally\<close>; \<open>n\<close> is
  \<^verbatim>\<open>len(words)\<close>. The pause after each word is not modelled.
\<close>

fun stream_words :: "nat \<Rightarrow> nat \<Rightarrow> string list \<Rightarrow> session \<Rightarrow> session" where
  "stream_words n i [] s = s"
| "stream_words n i (word # rest) s =
     stream_words n (i + 1) rest
       (send_event
          (ContentBlockDelta (Plain (word @ (if int i < int n - 1 then '' '' else ''''))))
          s)"

text \<open>\<^verbatim>\<open>_stream_text_naturally\<close>: \<^verbatim>\<open>if not text\<close> holds for \<^verbatim>\<open>None\<close> and for the empty string.\<close>

definition stream_text_naturally :: "string option \<Rightarrow> session \<Rightarrow> session" where
  "stream_text_naturally text s =
     (case text of
        None \<Rightarrow> s
      | Some t \<Rightarrow>
          (if t = [] then s
           else (let s1 = send_event (ContentBlockDelta (Plain [CHR 0x0A, CHR 0x0A])) s;
                     words = str_split t
                 in stream_words (length words) 0 words s1)))"

definition send_completion_events :: "final_response \<Rightarrow> session \<Rightarrow> session" where
  "send_completion_events r s =
     send_event MessageStop
       (send_event (MessageDelta (fr_stop_reason r) (fr_usage r))
          (send_event ContentBlockStop s))"

definition send_error_event :: "string \<Rightarrow> session \<Rightarrow> session" where
  "send_error_event error_message s = send_event (ErrorFrame error_message) s"

subsection \<open>Request handlers\<close>

definition handle_streaming_conversation :: "env \<Rightarrow> anthropic_request \<Rightarrow> session \<Rightarrow> session" where
  "handle_streaming_conversation e req s =
     (let message_id = new_message_id e;
          s1 = send_event (MessageStart message_id) s;
          s2 = send_event ContentBlockStart s1
      in case process_conversation_with_streaming e req message_id s2 of
           (Inl err, s3) \<Rightarrow> send_error_event (error_text err) s3
         | (Inr final_response, s3) \<Rightarrow>
             send_completion_events final_response
               (stream_text_naturally (extract_text_from_response final_response) s3))"

text \<open>
  What the client gets for a request that is not streamed: the JSON body with status 200,
  or \<^verbatim>\<open>send_error(500, str(e))\<close>.
\<close>

datatype http_reply = JsonBody final_response | HttpError nat string

definition handle_complete_conversation ::
  "env \<Rightarrow> anthropic_request \<Rightarrow> session \<Rightarrow> http_reply \<times> session" where
  "handle_complete_conversation e req s =
     (case execute_complete_conversation e req s of
        (Inl err, s') \<Rightarrow> (HttpError 500 (error_text err), s')
      | (Inr final_response, s') \<Rightarrow> (JsonBody final_response, s'))"

text \<open>\<^verbatim>\<open>handle_messages\<close> on a parsed request; a streamed request has no body besides its frames.\<close>

definition handle_messages :: "env \<Rightarrow> anthropic_request \<Rightarrow> session \<Rightarrow> http_reply option \<times> session" where
  "handle_messages e req s =
     (if stream req then (None, handle_streaming_conversation e req s)
      else (case handle_complete_conversation e req s of (reply, s') \<Rightarrow> (Some reply, s')))"

section \<open>Notions used to state the properties\<close>

subsection \<open>Translation\<close>

text \<open>Each word with a trailing space, except the last.\<close>

fun spaced :: "string list \<Rightarrow> string list" where
  "spaced [] = []"
| "spaced [w] = [w]"
| "spaced (w # w' # ws) = (w @ '' '') # spaced (w' # ws)"

text \<open>
  What follows reads a front message as the front protocol describes it, and is \<open>None\<close>
  where the message is not of that form.

  The text of one block of a tool result: the string under \<^verbatim>\<open>text\<close>, or Python's rendering
  of what is there, or of the whole block when it has no \<^verbatim>\<open>text\<close>. A block is an object.
\<close>

definition block_text_of :: "(json \<Rightarrow> string) \<Rightarrow> json \<Rightarrow> string option" where
  "block_text_of str_of c =
     (case c of
        JObj kvs \<Rightarrow>
          (case map_of kvs ''text'' of
             Some (JStr t) \<Rightarrow> Some t
           | Some v \<Rightarrow> Some (str_of v)
           | None \<Rightarrow> Some (str_of c))
      | _ \<Rightarrow> None)"

text \<open>
  The flattened text of the content of a tool result: the texts of its blocks with single
  spaces in between, the content itself when it is a string, and Python's rendering of
  any other value.
\<close>

definition flattened_text :: "(json \<Rightarrow> string) \<Rightarrow> json \<Rightarrow> string option" where
  "flattened_text str_of rc =
     (case rc of
        JArr cs \<Rightarrow> map_option (\<lambda>ts. concat (spaced ts)) (those (map (block_text_of str_of) cs))
      | JStr s \<Rightarrow> Some s
      | _ \<Rightarrow> Some (str_of rc))"

text \<open>
  The text parts that one content item contributes to its message: a text item its
  string, a tool-result item its rendering, any other object nothing. An item is an
  object, and a text item carries a string.
\<close>

definition item_text_parts :: "(json \<Rightarrow> string) \<Rightarrow> json \<Rightarrow> string list option" where
  "item_text_parts str_of item =
     (case item of
        JObj kvs \<Rightarrow>
          (case map_of kvs ''type'' of
             Some (JStr ty) \<Rightarrow>
               (if ty = ''text'' then
                  (case map_of kvs ''text'' of Some (JStr t) \<Rightarrow> Some [t] | _ \<Rightarrow> None)
                else if ty = ''tool_result'' then
                  map_option (\<lambda>flat. [''Tool result: '' @ flat])
                    (flattened_text str_of
                       (case map_of kvs ''content'' of None \<Rightarrow> JStr [] | Some c \<Rightarrow> c))
                else Some [])
           | _ \<Rightarrow> Some [])
      | _ \<Rightarrow> None)"

definition message_text_parts :: "(json \<Rightarrow> string) \<Rightarrow> json list \<Rightarrow> string list option" where
  "message_text_parts str_of items = map_option concat (those (map (item_text_parts str_of) items))"

text \<open>The back-protocol messages that one front message stands for: one or none.\<close>

definition back_messages_of :: "(json \<Rightarrow> string) \<Rightarrow> message \<Rightarrow> entry list option" where
  "back_messages_of str_of m =
     (case content m of
        Text s \<Rightarrow> Some [Converted (role m) s]
      | Items items \<Rightarrow>
          map_option
            (\<lambda>parts. if parts = [] then [] else [Converted (role m) (concat (spaced parts))])
            (message_text_parts str_of items))"

text \<open>A front tool is valid when it carries a name and an input schema.\<close>

definition has_name_and_schema :: "tool \<Rightarrow> bool" where
  "has_name_and_schema t = (tool_name t \<noteq> None \<and> tool_input_schema t \<noteq> None)"

definition name_and_schema :: "tool \<Rightarrow> (string \<times> json) option" where
  "name_and_schema t =
     (case tool_name t of
        None \<Rightarrow> None
      | Some n \<Rightarrow> (case tool_input_schema t of None \<Rightarrow> None | Some schema \<Rightarrow> Some (n, schema)))"

text \<open>The function declaration of a valid front tool.\<close>

definition function_declaration :: "tool \<Rightarrow> openai_tool option" where
  "function_declaration t =
     (case tool_name t of
        None \<Rightarrow> None
      | Some n \<Rightarrow>
          (case tool_input_schema t of
             None \<Rightarrow> None
           | Some schema \<Rightarrow>
               Some \<lparr>decl_type = ''function'',
                     decl_function =
                       \<lparr>fn_name = n,
                        fn_description = (case tool_description t of None \<Rightarrow> [] | Some d \<Rightarrow> d),
                        fn_parameters = schema\<rparr>\<rparr>))"

text \<open>Reading a front tool's name and schema back from a declaration.\<close>

definition declared_name_and_schema :: "openai_tool \<Rightarrow> string \<times> json" where
  "declared_name_and_schema d = (fn_name (decl_function d), fn_parameters (decl_function d))"

subsection \<open>Orchestration\<close>

text \<open>The session \<open>s'\<close> has the frames of \<open>s\<close> and then text deltas only.\<close>

definition adds_only_deltas :: "session \<Rightarrow> session \<Rightarrow> bool" where
  "adds_only_deltas s s' = (\<exists>ds. list_all is_delta ds \<and> frames s' = frames s @ ds)"

text \<open>What \<^verbatim>\<open>_call_groq_api\<close> returns for the \<open>n\<close>-th call with payload \<open>p\<close>.\<close>

definition groq_reply :: "env \<Rightarrow> nat \<Rightarrow> payload \<Rightarrow> response option" where
  "groq_reply e n p =
     (case post e n p of
        Status code body \<Rightarrow> (if code = 200 then body else None)
      | Timeout \<Rightarrow> None
      | RequestException msg \<Rightarrow> None)"

text \<open>The session after the backend call of one iteration that starts with variables \<open>v\<close>.\<close>

definition after_call :: "anthropic_request \<Rightarrow> openai_tool list \<Rightarrow> locals \<Rightarrow> session \<Rightarrow> session" where
  "after_call req ts v s =
     (send_progress_update (Thinking (iteration v + 1)) s)
       \<lparr>posted := posted s @ [groq_payload (conversation_messages v) ts req]\<rparr>"

text \<open>The tool batch of that iteration, for the response \<open>r\<close>.\<close>

definition run_tools ::
  "env \<Rightarrow> anthropic_request \<Rightarrow> openai_tool list \<Rightarrow> locals \<Rightarrow> response \<Rightarrow> session \<Rightarrow> (error + entry list) \<times> session" where
  "run_tools e req ts v r s =
     execute_tool_calls e (length (requested_calls (resp_tool_calls r))) 0
       (requested_calls (resp_tool_calls r))
       (conversation_messages v @ [Assistant (dict_get (resp_content r) []) (resp_tool_calls r)])
       (send_progress_update (Executing (map call_name (requested_calls (resp_tool_calls r))))
          (after_call req ts v s))"

text \<open>The argument string of a tool call is one that \<^verbatim>\<open>json.loads\<close> accepts.\<close>

definition parses :: "env \<Rightarrow> tool_call \<Rightarrow> bool" where
  "parses e tc = (case json_loads e (call_arguments tc) of Inl msg \<Rightarrow> False | Inr tool_args \<Rightarrow> True)"

text \<open>The conversation entry for a tool call whose argument string parses.\<close>

definition tool_entry_of :: "env \<Rightarrow> tool_call \<Rightarrow> entry" where
  "tool_entry_of e tc =
     ToolEntry (call_id tc)
       (execute_tool_locally e (call_name tc) (projr (json_loads e (call_arguments tc))))"

text \<open>A response with at least one tool call, all of them with argument strings that parse.\<close>

definition asks_for_tools :: "env \<Rightarrow> response \<Rightarrow> bool" where
  "asks_for_tools e r =
     (requested_calls (resp_tool_calls r) \<noteq> [] \<and>
      list_all (parses e) (requested_calls (resp_tool_calls r)))"

text \<open>
  The final response when the loop has run into the ceiling, \<open>r\<close> was the last backend
  response and \<open>u\<close> its usage: the text is the result of the last tool call of \<open>r\<close>.
\<close>

definition response_at_ceiling :: "env \<Rightarrow> string \<Rightarrow> response \<Rightarrow> usage_counts \<Rightarrow> final_response" where
  "response_at_ceiling e message_id r u =
     \<lparr>fr_id = message_id,
      fr_type = ''message'',
      fr_role = ''assistant'',
      fr_content =
        [\<lparr>block_type = ''text'',
          block_text = entry_content (tool_entry_of e (last (requested_calls (resp_tool_calls r))))\<rparr>],
      fr_model = ''moonshotai/kimi-k2-instruct'',
      fr_stop_reason = ''end_turn'',
      fr_usage =
        \<lparr>input_tokens = dict_get (prompt_tokens u) 100,
         output_tokens = dict_get (completion_tokens u) 50\<rparr>\<rparr>"

text \<open>The usage that \<^verbatim>\<open>response.get('usage', {})\<close> reads; \<open>None\<close> when the response has a null usage.\<close>

definition usage_read :: "response \<Rightarrow> usage_counts option" where
  "usage_read r = dict_get (resp_usage r) \<lparr>prompt_tokens = Absent, completion_tokens = Absent\<rparr>"

text \<open>A word: not empty and free of whitespace.\<close>

definition is_word :: "string \<Rightarrow> bool" where
  "is_word w = (w \<noteq> [] \<and> list_all (\<lambda>c. \<not> isspace c) w)"

section \<open>Scenarios\<close>

text \<open>
  Concrete requests and backends on which the properties are run. \<open>scenario_json_loads\<close>
  is \<^verbatim>\<open>json.loads\<close> on the two argument strings the scenarios use: \<^verbatim>\<open>{}\<close> parses to the
  empty object, and \<^verbatim>\<open>not json\<close> raises with the message given.
\<close>

definition scenario_json_loads :: "string \<Rightarrow> string + json" where
  "scenario_json_loads s =
     (if s = ''{}'' then Inr (JObj []) else Inl ''Expecting value: line 1 column 1 (char 0)'')"

text \<open>\<^verbatim>\<open>str\<close> on \<^verbatim>\<open>None\<close>, the only value that is not a string to which the scenarios apply it.\<close>

definition scenario_str :: "json \<Rightarrow> string" where
  "scenario_str v = ''None''"

text \<open>A backend given by \<open>p\<close>, and an \<^verbatim>\<open>LS\<close> tool that lists an empty working directory.\<close>

definition scenario_env :: "(nat \<Rightarrow> payload \<Rightarrow> http_result) \<Rightarrow> env" where
  "scenario_env p =
     \<lparr>post = p,
      json_loads = scenario_json_loads,
      tool_body = (\<lambda>name tool_input. Inr (''- /work/'' @ [CHR 0x0A])),
      py_str = scenario_str,
      new_message_id = ''msg_0a1b2c3d''\<rparr>"

definition list_files_request :: "bool \<Rightarrow> anthropic_request" where
  "list_files_request streamed =
     \<lparr>messages = [\<lparr>role = ''user'', content = Text ''list files''\<rparr>],
      tools = [\<lparr>tool_name = Some ''LS'', tool_description = None,
                tool_input_schema = Some (JObj [(''type'', JStr ''object'')])\<rparr>],
      stream = streamed, max_tokens = None, temperature = None\<rparr>"

text \<open>A backend response that asks for one \<^verbatim>\<open>LS\<close> call with the argument string \<open>args\<close>.\<close>

definition ls_call :: "string \<Rightarrow> response" where
  "ls_call args =
     \<lparr>resp_content = Value ''checking'',
      resp_tool_calls = Some [\<lparr>call_id = ''call_1'', call_name = ''LS'', call_arguments = args\<rparr>],
      resp_usage = Value \<lparr>prompt_tokens = Value 12, completion_tokens = Value 7\<rparr>\<rparr>"

text \<open>A backend response with an answer of two paragraphs and no tool call.\<close>

definition plain_reply :: response where
  "plain_reply =
     \<lparr>resp_content = Value (''Done.'' @ [CHR 0x0A, CHR 0x0A] @ ''No files.''),
      resp_tool_calls = None,
      resp_usage = Value \<lparr>prompt_tokens = Value 12, completion_tokens = Value 7\<rparr>\<rparr>"

text \<open>The three backends: it always times out, it always asks for the tool, it answers at once.\<close>

definition timeout_backend :: "nat \<Rightarrow> payload \<Rightarrow> http_result" where
  "timeout_backend n p = Timeout"

definition tool_backend :: "string \<Rightarrow> nat \<Rightarrow> payload \<Rightarrow> http_result" where
  "tool_backend args n p = Status 200 (Some (ls_call args))"

definition answer_backend :: "nat \<Rightarrow> payload \<Rightarrow> http_result" where
  "answer_backend n p = Status 200 (Some plain_reply)"

text \<open>A backend response with an empty answer and no tool call, and the backend that gives it.\<close>

definition empty_reply :: response where
  "empty_reply =
     \<lparr>resp_content = Value [],
      resp_tool_calls = None,
      resp_usage = Value \<lparr>prompt_tokens = Value 12, completion_tokens = Value 0\<rparr>\<rparr>"

definition empty_answer_backend :: "nat \<Rightarrow> payload \<Rightarrow> http_result" where
  "empty_answer_backend n p = Status 200 (Some empty_reply)"

text \<open>
  Front messages with content lists: a text item, a tool result with two text blocks, a
  tool result with null content and an image item; a message with string content; and a
  message whose only item is an image.
\<close>

definition text_item :: "string \<Rightarrow> json" where
  "text_item t = JObj [(''type'', JStr ''text''), (''text'', JStr t)]"

definition image_item :: json where
  "image_item = JObj [(''type'', JStr ''image''), (''source'', JObj [(''type'', JStr ''base64'')])]"

definition tool_result_messages :: "message list" where
  "tool_result_messages =
     [\<lparr>role = ''user'',
       content = Items
         [text_item ''foo'',
          JObj [(''type'', JStr ''tool_result''), (''tool_use_id'', JStr ''toolu_1''),
                (''content'', JArr [text_item ''a'', text_item ''b''])],
          JObj [(''type'', JStr ''tool_result''), (''tool_use_id'', JStr ''toolu_2''),
                (''content'', JNull)],
          image_item]\<rparr>,
      \<lparr>role = ''assistant'', content = Text ''ok''\<rparr>,
      \<lparr>role = ''user'', content = Items [image_item]\<rparr>]"

section \<open>Schema translation: properties\<close>

subsection \<open>Messages\<close>

lemma concat_spaced: "concat (spaced ws) = str_join '' '' ws"
  by (induction ws rule: spaced.induct) simp_all

lemma result_strs_blocks:
  "those (map (block_text_of str_of) cs) = Some ts \<Longrightarrow>
   result_strs str_of strs cs = Inr (strs @ ts)"
proof (induction cs arbitrary: strs ts)
  case Nil
  then show ?case by simp
next
  case (Cons c cs)
  from Cons.prems obtain t ts' where
    c: "block_text_of str_of c = Some t" and rest: "those (map (block_text_of str_of) cs) = Some ts'"
    and ts: "ts = t # ts'"
    by (auto split: option.splits)
  from c obtain kvs where obj: "c = JObj kvs"
    by (cases c) (simp_all add: block_text_of_def)
  have shown: "py_str_of str_of (case map_of kvs ''text'' of None \<Rightarrow> JObj kvs | Some v \<Rightarrow> v) = t"
    using c obj by (auto simp: block_text_of_def py_str_of_def split: option.splits json.splits)
  show ?case
    using Cons.IH [OF rest, of "strs @ [t]"] obj shown ts by simp
qed

lemma join_strs_strings:
  "join_strs i strs (map JStr ps) = Inr (str_join '' '' (strs @ ps))"
  by (induction ps arbitrary: i strs) simp_all

lemma collect_text_parts_items:
  "those (map (item_text_parts str_of) items) = Some pss \<Longrightarrow>
   collect_text_parts str_of text_parts items = Inr (text_parts @ map JStr (concat pss))"
proof (induction items arbitrary: text_parts pss)
  case Nil
  then show ?case by simp
next
  case (Cons item items)
  from Cons.prems obtain ps pss' where
    item: "item_text_parts str_of item = Some ps"
    and rest: "those (map (item_text_parts str_of) items) = Some pss'"
    and pss: "pss = ps # pss'"
    by (auto split: option.splits)
  from item obtain kvs where obj: "item = JObj kvs"
    by (cases item) (simp_all add: item_text_parts_def)
  note IH = Cons.IH [OF rest]
  show ?case
  proof (cases "map_of kvs ''type'' = Some (JStr ''text'')")
    case True
    with item obj obtain t where "map_of kvs ''text'' = Some (JStr t)" "ps = [t]"
      by (auto simp: item_text_parts_def split: option.splits json.splits)
    with True obj pss IH [of "text_parts @ [JStr t]"] show ?thesis
      by simp
  next
    case not_text: False
    show ?thesis
    proof (cases "map_of kvs ''type'' = Some (JStr ''tool_result'')")
      case True
      let ?rc = "case map_of kvs ''content'' of None \<Rightarrow> JStr [] | Some c \<Rightarrow> c"
      from True item obj obtain flat where
        flat: "flattened_text str_of ?rc = Some flat" and ps: "ps = [''Tool result: '' @ flat]"
        by (auto simp: item_text_parts_def)
      show ?thesis
      proof (cases ?rc)
        case (JArr cs)
        with flat obtain ts where
          ts: "those (map (block_text_of str_of) cs) = Some ts" and "flat = concat (spaced ts)"
          by (auto simp: flattened_text_def)
        then have "flat = str_join '' '' ts"
          by (simp add: concat_spaced)
        with True not_text obj pss ps JArr result_strs_blocks [OF ts, of "[]"]
          IH [of "text_parts @ [JStr (''Tool result: '' @ flat)]"]
        show ?thesis
          by simp
      next
        case (JStr s)
        with flat have "flat = py_str_of str_of ?rc"
          by (simp add: flattened_text_def py_str_of_def)
        with True not_text obj pss ps JStr IH [of "text_parts @ [JStr (''Tool result: '' @ flat)]"]
        show ?thesis
          by simp
      next
        case JNull
        with flat have "flat = py_str_of str_of ?rc"
          by (simp add: flattened_text_def py_str_of_def)
        with True not_text obj pss ps JNull IH [of "text_parts @ [JStr (''Tool result: '' @ flat)]"]
        show ?thesis
          by simp
      next
        case (JBool b)
        with flat have "flat = py_str_of str_of ?rc"
          by (simp add: flattened_text_def py_str_of_def)
        with True not_text obj pss ps JBool IH [of "text_parts @ [JStr (''Tool result: '' @ flat)]"]
        show ?thesis
          by simp
      next
        case (JInt n)
        with flat have "flat = py_str_of str_of ?rc"
          by (simp add: flattened_text_def py_str_of_def)
        with True not_text obj pss ps JInt IH [of "text_parts @ [JStr (''Tool result: '' @ flat)]"]
        show ?thesis
          by simp
      next
        case (JFloat x)
        with flat have "flat = py_str_of str_of ?rc"
          by (simp add: flattened_text_def py_str_of_def)
        with True not_text obj pss ps JFloat IH [of "text_parts @ [JStr (''Tool result: '' @ flat)]"]
        show ?thesis
          by simp
      next
        case (JObj kvs')
        with flat have "flat = py_str_of str_of ?rc"
          by (simp add: flattened_text_def py_str_of_def)
        with True not_text obj pss ps JObj IH [of "text_parts @ [JStr (''Tool result: '' @ flat)]"]
        show ?thesis
          by simp
      qed
    next
      case False
      with not_text item obj have "ps = []"
        by (auto simp: item_text_parts_def split: option.splits json.splits if_splits)
      with False not_text obj pss IH [of text_parts] show ?thesis
        by simp
    qed
  qed
qed

lemma convert_messages_loop_messages:
  "those (map (back_messages_of str_of) msgs) = Some outs \<Longrightarrow>
   convert_messages_loop str_of openai_messages msgs = Inr (openai_messages @ concat outs)"
proof (induction msgs arbitrary: openai_messages outs)
  case Nil
  then show ?case by simp
next
  case (Cons msg msgs)
  from Cons.prems obtain out outs' where
    msg: "back_messages_of str_of msg = Some out"
    and rest: "those (map (back_messages_of str_of) msgs) = Some outs'"
    and outs: "outs = out # outs'"
    by (auto split: option.splits)
  note IH = Cons.IH [OF rest]
  show ?case
  proof (cases "content msg")
    case (Text s)
    with msg have "out = [Converted (role msg) s]"
      by (simp add: back_messages_of_def)
    with Text outs IH [of "openai_messages @ [Converted (role msg) s]"] show ?thesis
      by simp
  next
    case (Items items)
    with msg obtain pss where
      pss: "those (map (item_text_parts str_of) items) = Some pss"
      and out: "out = (if concat pss = [] then []
                       else [Converted (role msg) (concat (spaced (concat pss)))])"
      by (auto simp: back_messages_of_def message_text_parts_def)
    have collected: "collect_text_parts str_of [] items = Inr (map JStr (concat pss))"
      using collect_text_parts_items [OF pss, of "[]"] by simp
    have joined: "join_strs 0 [] (map JStr (concat pss)) = Inr (concat (spaced (concat pss)))"
      by (simp add: join_strs_strings concat_spaced)
    show ?thesis
    proof (cases "concat pss = []")
      case True
      with Items outs out collected IH [of openai_messages] show ?thesis
        by simp
    next
      case False
      with Items outs out collected joined
        IH [of "openai_messages @ [Converted (role msg) (concat (spaced (concat pss)))]"]
      show ?thesis
        by simp
    qed
  qed
qed

lemma convert_one_message:
  "back_messages_of str_of m = Some out \<Longrightarrow> convert_messages_to_openai str_of [m] = Inr out"
  using convert_messages_loop_messages [of str_of "[m]" "[out]" "[]"]
  by (simp add: convert_messages_to_openai_def)

text \<open>
  Claim C7, as amended. Front-to-back message conversion maps each front message with
  list-valued content, when its items are of the form the front protocol describes, to at
  most one back-protocol message with the same role: the text items and the tool-result
  items, the latter rendered as \<^verbatim>\<open>"Tool result: "\<close> followed by the flattened text (the
  texts of the result's blocks joined by single spaces, or the result string itself), are
  joined by single spaces, in their order, into one content string; a message whose
  content list yields no text part produces no back-protocol message at all; a message
  with string content passes through unchanged.
\<close>

theorem convert_messages_to_openai_per_message:
  "(those (map (back_messages_of str_of) msgs) = Some outs \<longrightarrow>
      convert_messages_to_openai str_of msgs = Inr (concat outs))
   \<and> (back_messages_of str_of m = Some out \<longrightarrow>
        convert_messages_to_openai str_of [m] = Inr out \<and> length out \<le> 1
        \<and> list_all (\<lambda>b. entry_role b = role m) out)
   \<and> (message_text_parts str_of items = Some parts \<longrightarrow>
        convert_messages_to_openai str_of [\<lparr>role = r, content = Items items\<rparr>] =
          Inr (if parts = [] then [] else [Converted r (concat (spaced parts))]))
   \<and> convert_messages_to_openai str_of [\<lparr>role = r, content = Text s\<rparr>] = Inr [Converted r s]"
proof (intro conjI impI)
  assume "those (map (back_messages_of str_of) msgs) = Some outs"
  then show "convert_messages_to_openai str_of msgs = Inr (concat outs)"
    using convert_messages_loop_messages [of str_of msgs outs "[]"]
    by (simp add: convert_messages_to_openai_def)
next
  assume out: "back_messages_of str_of m = Some out"
  then show "convert_messages_to_openai str_of [m] = Inr out"
    by (rule convert_one_message)
  from out show "length out \<le> 1"
    by (auto simp: back_messages_of_def split: msg_content.splits)
  from out show "list_all (\<lambda>b. entry_role b = role m) out"
    by (auto simp: back_messages_of_def split: msg_content.splits)
next
  assume "message_text_parts str_of items = Some parts"
  then have "back_messages_of str_of \<lparr>role = r, content = Items items\<rparr> =
      Some (if parts = [] then [] else [Converted r (concat (spaced parts))])"
    by (simp add: back_messages_of_def)
  then show "convert_messages_to_openai str_of [\<lparr>role = r, content = Items items\<rparr>] =
      Inr (if parts = [] then [] else [Converted r (concat (spaced parts))])"
    by (rule convert_one_message)
next
  have "back_messages_of str_of \<lparr>role = r, content = Text s\<rparr> = Some [Converted r s]"
    by (simp add: back_messages_of_def)
  then show "convert_messages_to_openai str_of [\<lparr>role = r, content = Text s\<rparr>] = Inr [Converted r s]"
    by (rule convert_one_message)
qed

text \<open>
  A user message with a text item, two tool results and an image, an assistant message
  with string content, and a user message with an image only: two back-protocol messages.
\<close>

theorem convert_messages_to_openai_per_message_witness:
  "those (map (back_messages_of scenario_str) tool_result_messages) =
      Some [ [Converted ''user'' ''foo Tool result: a b Tool result: None''],
             [Converted ''assistant'' ''ok''], [] ]
   \<and> convert_messages_to_openai scenario_str tool_result_messages =
      Inr [Converted ''user'' ''foo Tool result: a b Tool result: None'', Converted ''assistant'' ''ok'']"
proof -
  have parsed: "those (map (back_messages_of scenario_str) tool_result_messages) =
      Some [ [Converted ''user'' ''foo Tool result: a b Tool result: None''],
             [Converted ''assistant'' ''ok''], [] ]"
    by code_simp
  have "convert_messages_to_openai scenario_str tool_result_messages =
      Inr (concat [ [Converted ''user'' ''foo Tool result: a b Tool result: None''],
             [Converted ''assistant'' ''ok''], [] ])"
    using convert_messages_to_openai_per_message [where str_of = scenario_str and msgs = tool_result_messages] parsed
    by blast
  with parsed show ?thesis
    by simp
qed

text \<open>
  Claim C7 as stated fails where it says that text items are concatenated: the code puts a
  space between them.
\<close>

theorem convert_messages_to_openai_per_message_counterexample:
  "convert_messages_to_openai scenario_str
     [\<lparr>role = ''user'', content = Items [text_item ''foo'', text_item ''bar'']\<rparr>] =
     Inr [Converted ''user'' ''foo bar'']
   \<and> ''foo bar'' \<noteq> ''foo'' @ ''bar''"
  by code_simp

text \<open>
  Items that are not of the form the front protocol describes make the conversion raise:
  an item or a block that is not an object, a text item without text, a text that is not
  a string.
\<close>

lemma malformed_items_raise:
  "convert_messages_to_openai scenario_str [\<lparr>role = ''user'', content = Items [JStr ''hello'']\<rparr>] =
     Inl (AttributeError ''str'')
   \<and> convert_messages_to_openai scenario_str
       [\<lparr>role = ''user'', content = Items [JObj [(''type'', JStr ''text'')]]\<rparr>] =
     Inl (KeyError ''text'')
   \<and> convert_messages_to_openai scenario_str
       [\<lparr>role = ''user'', content = Items [JObj [(''type'', JStr ''text''), (''text'', JInt 5)]]\<rparr>] =
     Inl (TypeError 0 ''int'')
   \<and> convert_messages_to_openai scenario_str
       [\<lparr>role = ''user'',
         content = Items [JObj [(''type'', JStr ''tool_result''), (''content'', JArr [JStr ''hello''])]]\<rparr>] =
     Inl (AttributeError ''str'')"
  by code_simp

subsection \<open>Tools\<close>

lemma convert_tools_loop_eq:
  "convert_tools_loop acc ts = acc @ List.map_filter function_declaration ts"
  by (induction ts arbitrary: acc)
     (simp_all add: function_declaration_def List.map_filter_simps split: option.splits)

text \<open>
  Claim C8. Front-to-back tool conversion keeps exactly the tools that carry both a name
  and an input schema, in their order, and skips the rest. Each kept tool becomes a
  declaration of type \<^verbatim>\<open>function\<close> with the tool's name, the schema copied as the parameters
  and the description, or the empty string when there is none. So the name and the schema
  of every valid tool are read back unchanged from the converted declarations.
\<close>

theorem convert_tools_to_openai_lossless:
  "convert_tools_to_openai ts = List.map_filter function_declaration ts
   \<and> length (convert_tools_to_openai ts) = length (filter has_name_and_schema ts)
   \<and> map declared_name_and_schema (convert_tools_to_openai ts) = List.map_filter name_and_schema ts
   \<and> map (\<lambda>d. fn_description (decl_function d)) (convert_tools_to_openai ts) =
       map (\<lambda>t. case tool_description t of None \<Rightarrow> [] | Some d \<Rightarrow> d) (filter has_name_and_schema ts)"
proof -
  have whole: "convert_tools_to_openai ts = List.map_filter function_declaration ts"
    by (simp add: convert_tools_to_openai_def convert_tools_loop_eq)
  have kept: "length (List.map_filter function_declaration ts) = length (filter has_name_and_schema ts)"
    by (induction ts)
       (simp_all add: function_declaration_def has_name_and_schema_def
          split: option.splits)
  have recovered: "map declared_name_and_schema (List.map_filter function_declaration ts) =
      List.map_filter name_and_schema ts"
    by (induction ts)
       (simp_all add: function_declaration_def name_and_schema_def
          declared_name_and_schema_def split: option.splits)
  have described: "map (\<lambda>d. fn_description (decl_function d)) (List.map_filter function_declaration ts) =
      map (\<lambda>t. case tool_description t of None \<Rightarrow> [] | Some d \<Rightarrow> d) (filter has_name_and_schema ts)"
    by (induction ts)
       (simp_all add: function_declaration_def has_name_and_schema_def
          split: option.splits)
  show ?thesis
    using whole kept recovered described by simp
qed

section \<open>Orchestration: properties\<close>

subsection \<open>Frames\<close>

lemma adds_only_deltas_refl: "adds_only_deltas s s"
  by (simp add: adds_only_deltas_def)

lemma adds_only_deltas_same: "frames s' = frames s \<Longrightarrow> adds_only_deltas s s'"
  by (simp add: adds_only_deltas_def)

lemma adds_only_deltas_trans:
  "adds_only_deltas s s' \<Longrightarrow> adds_only_deltas s' s'' \<Longrightarrow> adds_only_deltas s s''"
proof -
  assume "adds_only_deltas s s'" and "adds_only_deltas s' s''"
  then obtain ds ds' where "list_all is_delta ds" "frames s' = frames s @ ds"
    "list_all is_delta ds'" "frames s'' = frames s' @ ds'"
    by (auto simp: adds_only_deltas_def)
  then have "list_all is_delta (ds @ ds') \<and> frames s'' = frames s @ (ds @ ds')"
    by simp
  then show ?thesis
    unfolding adds_only_deltas_def by blast
qed

lemma adds_only_deltas_progress: "adds_only_deltas s (send_progress_update t s)"
  by (simp add: adds_only_deltas_def send_progress_update_def send_event_def)

lemma adds_only_deltas_executed: "adds_only_deltas s (s\<lparr>executed := x\<rparr>)"
  by (simp add: adds_only_deltas_def)

subsection \<open>One iteration of the loop\<close>

lemma call_groq_api_eq:
  "call_groq_api e n msgs ts req s =
     (groq_reply e n (groq_payload msgs ts req), s\<lparr>posted := posted s @ [groq_payload msgs ts req]\<rparr>)"
  by (simp add: call_groq_api_def groq_reply_def Let_def split: http_result.splits)

lemma conversation_loop_stop:
  "\<not> iteration v < MAX_TOOL_ITERATIONS \<Longrightarrow> conversation_loop e req ts v s = (Inr v, s)"
  by (subst conversation_loop.simps) simp

lemma conversation_loop_failed:
  "iteration v < MAX_TOOL_ITERATIONS \<Longrightarrow>
   groq_reply e (iteration v + 1) (groq_payload (conversation_messages v) ts req) = None \<Longrightarrow>
   conversation_loop e req ts v s =
     (Inr (v\<lparr>iteration := iteration v + 1, last_response := None\<rparr>), after_call req ts v s)"
  by (subst conversation_loop.simps)
     (simp add: call_groq_api_eq after_call_def send_progress_update_def send_event_def)

lemma conversation_loop_answered:
  "iteration v < MAX_TOOL_ITERATIONS \<Longrightarrow>
   groq_reply e (iteration v + 1) (groq_payload (conversation_messages v) ts req) = Some r \<Longrightarrow>
   requested_calls (resp_tool_calls r) = [] \<Longrightarrow>
   conversation_loop e req ts v s =
     (Inr \<lparr>conversation_messages =
             conversation_messages v @ [Assistant (dict_get (resp_content r) []) (resp_tool_calls r)],
           iteration = iteration v + 1, total_tool_calls = total_tool_calls v,
           last_response = Some r\<rparr>,
      after_call req ts v s)"
  by (subst conversation_loop.simps)
     (simp add: call_groq_api_eq after_call_def send_progress_update_def send_event_def)

lemma conversation_loop_raised:
  "iteration v < MAX_TOOL_ITERATIONS \<Longrightarrow>
   groq_reply e (iteration v + 1) (groq_payload (conversation_messages v) ts req) = Some r \<Longrightarrow>
   requested_calls (resp_tool_calls r) \<noteq> [] \<Longrightarrow>
   fst (run_tools e req ts v r s) = Inl err \<Longrightarrow>
   conversation_loop e req ts v s = (Inl err, snd (run_tools e req ts v r s))"
  by (subst conversation_loop.simps)
     (simp add: call_groq_api_eq after_call_def run_tools_def Let_def case_prod_beta
        send_progress_update_def send_event_def)

lemma conversation_loop_continued:
  "iteration v < MAX_TOOL_ITERATIONS \<Longrightarrow>
   groq_reply e (iteration v + 1) (groq_payload (conversation_messages v) ts req) = Some r \<Longrightarrow>
   requested_calls (resp_tool_calls r) \<noteq> [] \<Longrightarrow>
   fst (run_tools e req ts v r s) = Inr conv' \<Longrightarrow>
   conversation_loop e req ts v s =
     conversation_loop e req ts
       \<lparr>conversation_messages = conv', iteration = iteration v + 1,
        total_tool_calls = total_tool_calls v + length (requested_calls (resp_tool_calls r)),
        last_response = Some r\<rparr>
       (snd (run_tools e req ts v r s))"
  by (subst conversation_loop.simps)
     (simp add: call_groq_api_eq after_call_def run_tools_def Let_def case_prod_beta
        send_progress_update_def send_event_def)

subsection \<open>The loop sends text deltas only\<close>

lemma execute_tool_calls_deltas:
  "adds_only_deltas s (snd (execute_tool_calls e n i tcs conv s))"
proof (induction tcs arbitrary: i conv s)
  case Nil
  show ?case by (simp add: adds_only_deltas_refl)
next
  case (Cons tc tcs)
  show ?case
  proof (cases "json_loads e (call_arguments tc)")
    case (Inl msg)
    then show ?thesis by (simp add: adds_only_deltas_refl)
  next
    case (Inr tool_args)
    let ?s1 = "if n > 1 then send_progress_update (ToolProgress (call_name tc) (i + 1) n) s else s"
    let ?s2 = "?s1\<lparr>executed := executed ?s1 @ [(call_name tc, tool_args)]\<rparr>"
    have "adds_only_deltas s ?s1"
      by (simp add: adds_only_deltas_refl adds_only_deltas_progress)
    moreover have "adds_only_deltas ?s1 ?s2"
      by (rule adds_only_deltas_executed)
    ultimately have "adds_only_deltas s ?s2"
      by (rule adds_only_deltas_trans)
    from this Cons.IH [of ?s2] show ?thesis
      using Inr by (simp add: Let_def adds_only_deltas_trans)
  qed
qed

lemma execute_tool_calls_posted:
  "posted (snd (execute_tool_calls e n i tcs conv s)) = posted s"
  by (induction tcs arbitrary: i conv s)
     (simp_all add: Let_def send_progress_update_def send_event_def split: sum.splits)

lemma after_call_deltas: "adds_only_deltas s (after_call req ts v s)"
  by (simp add: adds_only_deltas_def after_call_def send_progress_update_def send_event_def)

lemma run_tools_deltas: "adds_only_deltas s (snd (run_tools e req ts v r s))"
proof -
  let ?s3 = "send_progress_update (Executing (map call_name (requested_calls (resp_tool_calls r))))
      (after_call req ts v s)"
  have "adds_only_deltas (after_call req ts v s) ?s3"
    by (rule adds_only_deltas_progress)
  with after_call_deltas have "adds_only_deltas s ?s3"
    by (rule adds_only_deltas_trans)
  moreover have "adds_only_deltas ?s3 (snd (run_tools e req ts v r s))"
    unfolding run_tools_def by (rule execute_tool_calls_deltas)
  ultimately show ?thesis
    by (rule adds_only_deltas_trans)
qed

lemma conversation_loop_deltas:
  "adds_only_deltas s (snd (conversation_loop e req ts v s))"
proof (induction "MAX_TOOL_ITERATIONS - iteration v" arbitrary: v s)
  case 0
  then show ?case
    by (simp add: conversation_loop_stop adds_only_deltas_refl)
next
  case (Suc k)
  have running: "iteration v < MAX_TOOL_ITERATIONS"
    using Suc.hyps(2) by simp
  show ?case
  proof (cases "groq_reply e (iteration v + 1) (groq_payload (conversation_messages v) ts req)")
    case None
    with running show ?thesis
      by (simp add: conversation_loop_failed after_call_deltas)
  next
    case (Some r)
    show ?thesis
    proof (cases "requested_calls (resp_tool_calls r) = []")
      case True
      with running Some show ?thesis
        by (simp add: conversation_loop_answered after_call_deltas)
    next
      case False
      show ?thesis
      proof (cases "fst (run_tools e req ts v r s)")
        case (Inl err)
        with running Some False show ?thesis
          by (simp add: conversation_loop_raised run_tools_deltas)
      next
        case (Inr conv')
        let ?v' = "\<lparr>conversation_messages = conv', iteration = iteration v + 1,
                    total_tool_calls = total_tool_calls v + length (requested_calls (resp_tool_calls r)),
                    last_response = Some r\<rparr>"
        let ?s' = "snd (run_tools e req ts v r s)"
        have "k = MAX_TOOL_ITERATIONS - iteration ?v'"
          using Suc.hyps(2) by simp
        then have "adds_only_deltas ?s' (snd (conversation_loop e req ts ?v' ?s'))"
          by (rule Suc.hyps(1))
        with run_tools_deltas have "adds_only_deltas s (snd (conversation_loop e req ts ?v' ?s'))"
          by (rule adds_only_deltas_trans)
        with running Some False Inr show ?thesis
          by (simp add: conversation_loop_continued)
      qed
    qed
  qed
qed

lemma process_conversation_session:
  "snd (process_conversation_with_streaming e req message_id s) =
     (case convert_messages_to_openai (py_str e) (messages req) of
        Inl err \<Rightarrow> send_progress_update Starting s
      | Inr conv \<Rightarrow>
          snd (conversation_loop e req (convert_tools_to_openai (tools req))
                 \<lparr>conversation_messages = conv, iteration = 0, total_tool_calls = 0,
                  last_response = None\<rparr> (send_progress_update Starting s)))"
  by (simp add: process_conversation_with_streaming_def Let_def case_prod_beta
        split: sum.splits option.splits)

lemma process_conversation_deltas:
  "adds_only_deltas s (snd (process_conversation_with_streaming e req message_id s))"
proof -
  let ?s0 = "send_progress_update Starting s"
  have started: "adds_only_deltas s ?s0"
    by (rule adds_only_deltas_progress)
  show ?thesis
  proof (cases "convert_messages_to_openai (py_str e) (messages req)")
    case (Inl err)
    with started show ?thesis
      by (simp add: process_conversation_session)
  next
    case (Inr conv)
    let ?loop = "conversation_loop e req (convert_tools_to_openai (tools req))
        \<lparr>conversation_messages = conv, iteration = 0, total_tool_calls = 0,
         last_response = None\<rparr> ?s0"
    have "adds_only_deltas ?s0 (snd ?loop)"
      by (rule conversation_loop_deltas)
    with started have "adds_only_deltas s (snd ?loop)"
      by (rule adds_only_deltas_trans)
    with Inr show ?thesis
      by (simp add: process_conversation_session)
  qed
qed

subsection \<open>Streaming the final text\<close>

lemma spaced_Cons: "spaced (w # ws) = (w @ (if ws = [] then [] else '' '')) # spaced ws"
  by (cases ws) simp_all

lemma stream_words_frames:
  "n = i + length ws \<Longrightarrow>
   frames (stream_words n i ws s) = frames s @ map (\<lambda>w. ContentBlockDelta (Plain w)) (spaced ws)"
proof (induction ws arbitrary: i s)
  case Nil
  show ?case by simp
next
  case (Cons w ws)
  have more: "int i < int n - 1 \<longleftrightarrow> ws \<noteq> []"
    using Cons.prems by auto
  have "n = (i + 1) + length ws"
    using Cons.prems by simp
  from Cons.IH [OF this] more show ?case
    by (simp add: send_event_def spaced_Cons del: spaced.simps)
qed

lemma stream_text_naturally_frames:
  "frames (stream_text_naturally (Some t) s) =
     frames s @
       (if t = [] then []
        else ContentBlockDelta (Plain [CHR 0x0A, CHR 0x0A]) #
             map (\<lambda>w. ContentBlockDelta (Plain w)) (spaced (str_split t)))"
  by (simp add: stream_text_naturally_def Let_def stream_words_frames send_event_def)

lemma stream_text_naturally_deltas: "adds_only_deltas s (stream_text_naturally text s)"
proof (cases "text")
  case None
  then show ?thesis by (simp add: stream_text_naturally_def adds_only_deltas_refl)
next
  case (Some t)
  have "list_all is_delta (map (\<lambda>w. ContentBlockDelta (Plain w)) ws)" for ws
    by (induction ws) simp_all
  then show ?thesis
    unfolding adds_only_deltas_def Some stream_text_naturally_frames by simp
qed

subsection \<open>Order of the frames of a streamed request\<close>

text \<open>
  Claim C4. For every streamed request the frames sent are: one \<^verbatim>\<open>message_start\<close>, one
  \<^verbatim>\<open>content_block_start\<close>, then text deltas only, and then either
  \<^verbatim>\<open>content_block_stop\<close>, \<^verbatim>\<open>message_delta\<close> (with the stop reason and the usage of the final
  response) and \<^verbatim>\<open>message_stop\<close>, when the orchestration returned a response, or one
  \<^verbatim>\<open>error\<close> frame with the message of the exception, when it raised. Nothing follows.
\<close>

theorem streaming_frame_order:
  "\<exists>ds. list_all is_delta ds \<and>
     frames (handle_streaming_conversation e req s) =
       frames s @ MessageStart (new_message_id e) # ContentBlockStart # ds @
         (case fst (process_conversation_with_streaming e req (new_message_id e)
                      (send_event ContentBlockStart (send_event (MessageStart (new_message_id e)) s))) of
            Inl err \<Rightarrow> [ErrorFrame (error_text err)]
          | Inr final_response \<Rightarrow>
              [ContentBlockStop,
               MessageDelta (fr_stop_reason final_response) (fr_usage final_response),
               MessageStop])"
proof -
  let ?s2 = "send_event ContentBlockStart (send_event (MessageStart (new_message_id e)) s)"
  let ?run = "process_conversation_with_streaming e req (new_message_id e) ?s2"
  have opened: "frames ?s2 = frames s @ [MessageStart (new_message_id e), ContentBlockStart]"
    by (simp add: send_event_def)
  have processed: "adds_only_deltas ?s2 (snd ?run)"
    by (rule process_conversation_deltas)
  show ?thesis
  proof (cases "fst ?run")
    case (Inl err)
    from processed obtain ds where "list_all is_delta ds" "frames (snd ?run) = frames ?s2 @ ds"
      by (auto simp: adds_only_deltas_def)
    with Inl opened show ?thesis
      by (auto simp: handle_streaming_conversation_def Let_def case_prod_beta
            send_error_event_def send_event_def)
  next
    case (Inr final_response)
    let ?s4 = "stream_text_naturally (extract_text_from_response final_response) (snd ?run)"
    have "adds_only_deltas (snd ?run) ?s4"
      by (rule stream_text_naturally_deltas)
    with processed have "adds_only_deltas ?s2 ?s4"
      by (rule adds_only_deltas_trans)
    then obtain ds where "list_all is_delta ds" "frames ?s4 = frames ?s2 @ ds"
      by (auto simp: adds_only_deltas_def)
    with Inr opened show ?thesis
      by (auto simp: handle_streaming_conversation_def Let_def case_prod_beta
            send_completion_events_def send_event_def)
  qed
qed

subsection \<open>Tool batches\<close>

lemma last_message_nonempty: "xs \<noteq> [] \<Longrightarrow> last_message xs = Inr (last xs)"
  by (cases xs) simp_all

lemma execute_tool_calls_entries:
  "list_all (parses e) tcs \<Longrightarrow>
   fst (execute_tool_calls e n i tcs conv s) = Inr (conv @ map (tool_entry_of e) tcs)"
  by (induction tcs arbitrary: i conv s)
     (auto simp: parses_def tool_entry_of_def Let_def split: sum.splits)

lemma execute_tool_calls_executed:
  "list_all (parses e) tcs \<Longrightarrow>
   executed (snd (execute_tool_calls e n i tcs conv s)) =
     executed s @ map (\<lambda>tc. (call_name tc, projr (json_loads e (call_arguments tc)))) tcs"
  by (induction tcs arbitrary: i conv s)
     (auto simp: parses_def Let_def send_progress_update_def send_event_def split: sum.splits)

lemma run_tools_entries:
  "asks_for_tools e r \<Longrightarrow>
   fst (run_tools e req ts v r s) =
     Inr (conversation_messages v @ Assistant (dict_get (resp_content r) []) (resp_tool_calls r) #
          map (tool_entry_of e) (requested_calls (resp_tool_calls r)))"
  by (simp add: run_tools_def asks_for_tools_def execute_tool_calls_entries)

lemma run_tools_posted:
  "posted (snd (run_tools e req ts v r s)) =
     posted s @ [groq_payload (conversation_messages v) ts req]"
  by (simp add: run_tools_def execute_tool_calls_posted after_call_def
        send_progress_update_def send_event_def)

subsection \<open>Backend calls of one request\<close>

lemma conversation_loop_posted_bound:
  "length (posted (snd (conversation_loop e req ts v s))) \<le>
     length (posted s) + (MAX_TOOL_ITERATIONS - iteration v)"
proof (induction "MAX_TOOL_ITERATIONS - iteration v" arbitrary: v s)
  case 0
  then show ?case
    by (simp add: conversation_loop_stop)
next
  case (Suc k)
  have running: "iteration v < MAX_TOOL_ITERATIONS"
    using Suc.hyps(2) by simp
  have one: "length (posted (after_call req ts v s)) = length (posted s) + 1"
    by (simp add: after_call_def)
  show ?case
  proof (cases "groq_reply e (iteration v + 1) (groq_payload (conversation_messages v) ts req)")
    case None
    with running one Suc.hyps(2) show ?thesis
      by (simp add: conversation_loop_failed)
  next
    case (Some r)
    show ?thesis
    proof (cases "requested_calls (resp_tool_calls r) = []")
      case True
      with running Some one Suc.hyps(2) show ?thesis
        by (simp add: conversation_loop_answered)
    next
      case False
      show ?thesis
      proof (cases "fst (run_tools e req ts v r s)")
        case (Inl err)
        with running Some False Suc.hyps(2) show ?thesis
          by (simp add: conversation_loop_raised run_tools_posted)
      next
        case (Inr conv')
        let ?v' = "\<lparr>conversation_messages = conv', iteration = iteration v + 1,
                    total_tool_calls = total_tool_calls v + length (requested_calls (resp_tool_calls r)),
                    last_response = Some r\<rparr>"
        let ?s' = "snd (run_tools e req ts v r s)"
        have k: "k = MAX_TOOL_ITERATIONS - iteration ?v'"
          using Suc.hyps(2) by simp
        have "length (posted (snd (conversation_loop e req ts ?v' ?s'))) \<le>
            length (posted ?s') + (MAX_TOOL_ITERATIONS - iteration ?v')"
          using k by (rule Suc.hyps(1))
        with running Some False Inr Suc.hyps(2) show ?thesis
          by (simp add: conversation_loop_continued run_tools_posted)
      qed
    qed
  qed
qed

text \<open>
  A backend that asks for tools in each of the 15 calls, with argument strings that parse,
  takes the loop to the ceiling: 15 backend calls, and the conversation ends with the
  entry of the last tool call.
\<close>

lemma conversation_loop_ceiling:
  assumes always: "\<And>n p. 1 \<le> n \<Longrightarrow> n \<le> MAX_TOOL_ITERATIONS \<Longrightarrow>
      \<exists>r. groq_reply e n p = Some r \<and> asks_for_tools e r"
  shows "iteration v < MAX_TOOL_ITERATIONS \<Longrightarrow>
    \<exists>v' s' p r. conversation_loop e req ts v s = (Inr v', s') \<and>
      iteration v' = MAX_TOOL_ITERATIONS \<and>
      length (posted s') = length (posted s) + (MAX_TOOL_ITERATIONS - iteration v) \<and>
      groq_reply e MAX_TOOL_ITERATIONS p = Some r \<and> asks_for_tools e r \<and>
      last_response v' = Some r \<and>
      last_message (conversation_messages v') =
        Inr (tool_entry_of e (last (requested_calls (resp_tool_calls r))))"
proof (induction "MAX_TOOL_ITERATIONS - iteration v" arbitrary: v s)
  case 0
  then show ?case by simp
next
  case (Suc k)
  let ?p = "groq_payload (conversation_messages v) ts req"
  have "1 \<le> iteration v + 1" "iteration v + 1 \<le> MAX_TOOL_ITERATIONS"
    using Suc.prems by simp_all
  from always [OF this] obtain r where
    r: "groq_reply e (iteration v + 1) ?p = Some r" "asks_for_tools e r"
    by blast
  let ?tcs = "requested_calls (resp_tool_calls r)"
  let ?conv' = "conversation_messages v @ Assistant (dict_get (resp_content r) []) (resp_tool_calls r) #
      map (tool_entry_of e) ?tcs"
  let ?v' = "\<lparr>conversation_messages = ?conv', iteration = iteration v + 1,
              total_tool_calls = total_tool_calls v + length ?tcs, last_response = Some r\<rparr>"
  let ?s' = "snd (run_tools e req ts v r s)"
  have calls: "?tcs \<noteq> []"
    using r(2) by (simp add: asks_for_tools_def)
  have step: "conversation_loop e req ts v s = conversation_loop e req ts ?v' ?s'"
    using Suc.prems r calls run_tools_entries [OF r(2)]
    by (simp add: conversation_loop_continued)
  have posted': "length (posted ?s') = length (posted s) + 1"
    by (simp add: run_tools_posted)
  show ?case
  proof (cases "iteration ?v' < MAX_TOOL_ITERATIONS")
    case True
    have "k = MAX_TOOL_ITERATIONS - iteration ?v'"
      using Suc.hyps(2) by simp
    from Suc.hyps(1) [OF this True, of ?s'] step posted' Suc.prems show ?thesis
      by auto
  next
    case False
    with Suc.prems have at: "iteration v + 1 = MAX_TOOL_ITERATIONS"
      by simp
    have "last_message ?conv' = Inr (tool_entry_of e (last ?tcs))"
      using calls by (simp add: last_message_nonempty last_map)
    with False step posted' at r show ?thesis
      by (auto simp: conversation_loop_stop)
  qed
qed

text \<open>
  The request then ends with the result of the last tool call as its text, or with the
  \<^verbatim>\<open>AttributeError\<close> of a null usage.
\<close>

lemma process_at_ceiling:
  assumes always: "\<And>n p. 1 \<le> n \<Longrightarrow> n \<le> MAX_TOOL_ITERATIONS \<Longrightarrow>
      \<exists>r. groq_reply e n p = Some r \<and> asks_for_tools e r"
    and conv: "convert_messages_to_openai (py_str e) (messages req) = Inr conv"
  shows "\<exists>p r. groq_reply e MAX_TOOL_ITERATIONS p = Some r \<and> asks_for_tools e r \<and>
      fst (process_conversation_with_streaming e req message_id s) =
        (case usage_read r of
           None \<Rightarrow> Inl (AttributeError ''NoneType'')
         | Some u \<Rightarrow> Inr (response_at_ceiling e message_id r u)) \<and>
      length (posted (snd (process_conversation_with_streaming e req message_id s))) =
        length (posted s) + MAX_TOOL_ITERATIONS"
proof -
  let ?v = "\<lparr>conversation_messages = conv, iteration = 0, total_tool_calls = 0,
             last_response = None\<rparr>"
  let ?s0 = "send_progress_update Starting s"
  have "iteration ?v < MAX_TOOL_ITERATIONS"
    by (simp add: MAX_TOOL_ITERATIONS_def)
  from conversation_loop_ceiling [OF always this, of req "convert_tools_to_openai (tools req)" ?s0]
  obtain v' s' p r where
    loop: "conversation_loop e req (convert_tools_to_openai (tools req)) ?v ?s0 = (Inr v', s')"
    and posted: "length (posted s') = length (posted ?s0) + (MAX_TOOL_ITERATIONS - iteration ?v)"
    and r: "groq_reply e MAX_TOOL_ITERATIONS p = Some r" "asks_for_tools e r"
    and last: "last_response v' = Some r"
      "last_message (conversation_messages v') =
         Inr (tool_entry_of e (last (requested_calls (resp_tool_calls r))))"
    by blast
  have "fst (process_conversation_with_streaming e req message_id s) =
      (case usage_read r of
         None \<Rightarrow> Inl (AttributeError ''NoneType'')
       | Some u \<Rightarrow> Inr (response_at_ceiling e message_id r u))"
    using loop last conv
    by (simp add: process_conversation_with_streaming_def response_at_ceiling_def usage_read_def
          split: option.splits)
  moreover have "length (posted (snd (process_conversation_with_streaming e req message_id s))) =
      length (posted s) + MAX_TOOL_ITERATIONS"
    using loop conv posted
    by (simp add: process_conversation_session send_progress_update_def send_event_def)
  ultimately show ?thesis
    using r by blast
qed

text \<open>No request makes more than 15 backend calls.\<close>

lemma process_posted_bound:
  "length (posted (snd (process_conversation_with_streaming e req message_id s))) \<le>
     length (posted s) + MAX_TOOL_ITERATIONS"
proof (cases "convert_messages_to_openai (py_str e) (messages req)")
  case (Inl err)
  then show ?thesis
    by (simp add: process_conversation_session send_progress_update_def send_event_def)
next
  case (Inr conv)
  let ?v = "\<lparr>conversation_messages = conv, iteration = 0, total_tool_calls = 0,
             last_response = None\<rparr>"
  let ?s0 = "send_progress_update Starting s"
  let ?loop = "conversation_loop e req (convert_tools_to_openai (tools req)) ?v ?s0"
  have "length (posted (snd ?loop)) \<le> length (posted ?s0) + (MAX_TOOL_ITERATIONS - iteration ?v)"
    by (rule conversation_loop_posted_bound)
  with Inr show ?thesis
    by (simp add: process_conversation_session send_progress_update_def send_event_def)
qed

text \<open>
  When the front messages convert and each of the 15 backend calls returns a response
  with tool calls whose argument strings parse, exactly 15 backend calls are made.
\<close>

lemma ceiling_reached_when_arguments_parse:
  assumes conv: "convert_messages_to_openai (py_str e) (messages req) = Inr conv"
    and always: "\<And>n p. 1 \<le> n \<Longrightarrow> n \<le> 15 \<Longrightarrow>
      \<exists>r. post e n p = Status 200 (Some r) \<and> asks_for_tools e r"
  shows "length (posted (snd (process_conversation_with_streaming e req message_id s))) =
     length (posted s) + 15"
proof -
  have "\<exists>r. groq_reply e n p = Some r \<and> asks_for_tools e r"
    if "1 \<le> n" "n \<le> MAX_TOOL_ITERATIONS" for n p
  proof -
    from that have "n \<le> 15"
      by (simp add: MAX_TOOL_ITERATIONS_def)
    from always [OF that(1) this] obtain r where
      "post e n p = Status 200 (Some r)" "asks_for_tools e r"
      by blast
    then show ?thesis
      by (simp add: groq_reply_def)
  qed
  from process_at_ceiling [of e req conv message_id s, OF this conv] show ?thesis
    by (auto simp: MAX_TOOL_ITERATIONS_def)
qed

lemma scenario_asks_for_tools: "asks_for_tools (scenario_env p) (ls_call ''{}'')"
  by (simp add: asks_for_tools_def ls_call_def parses_def scenario_env_def scenario_json_loads_def)

text \<open>
  Claim C6 says that the tool loop never performs more than 15 backend calls
  (\<open>process_posted_bound\<close>) and that it performs exactly 15 when every backend response
  contains at least one tool call. The second part holds when the argument strings parse
  (\<open>ceiling_reached_when_arguments_parse\<close>); the code misses it for a tool call whose
  argument string is not JSON: the response below has a tool call, and the request ends
  after one backend call with the exception of \<^verbatim>\<open>json.loads\<close>.
\<close>

theorem malformed_arguments_end_loop_early:
  "requested_calls (resp_tool_calls (ls_call ''not json'')) \<noteq> []
   \<and> length (posted (snd (process_conversation_with_streaming (scenario_env (tool_backend ''not json''))
        (list_files_request False) ''msg_0a1b2c3d'' new_session))) = 1
   \<and> fst (process_conversation_with_streaming (scenario_env (tool_backend ''not json''))
        (list_files_request False) ''msg_0a1b2c3d'' new_session) =
       Inl (JSONDecodeError ''Expecting value: line 1 column 1 (char 0)'')"
  by code_simp

subsection \<open>An answer without tool calls\<close>

text \<open>
  Claim C10. If the first backend response contains no tool call, the tool loop ends after
  exactly one iteration: its iteration counter is 1, one backend call has been made and
  no tool has been executed. The request then ends with the content of that backend
  response as its text, or with the \<^verbatim>\<open>AttributeError\<close> of a null usage.
\<close>

theorem answer_without_tools_single_iteration:
  assumes "convert_messages_to_openai (py_str e) (messages req) = Inr conv"
    and "post e 1 (groq_payload conv (convert_tools_to_openai (tools req)) req) = Status 200 (Some r)"
    and "requested_calls (resp_tool_calls r) = []"
  shows "(\<exists>v. fst (conversation_loop e req (convert_tools_to_openai (tools req))
              \<lparr>conversation_messages = conv, iteration = 0, total_tool_calls = 0,
               last_response = None\<rparr>
              (send_progress_update Starting s)) = Inr v
            \<and> iteration v = 1 \<and> total_tool_calls v = 0)
       \<and> length (posted (snd (process_conversation_with_streaming e req message_id s))) = length (posted s) + 1
       \<and> executed (snd (process_conversation_with_streaming e req message_id s)) = executed s
       \<and> fst (process_conversation_with_streaming e req message_id s) =
           (case usage_read r of
              None \<Rightarrow> Inl (AttributeError ''NoneType'')
            | Some u \<Rightarrow>
                Inr \<lparr>fr_id = message_id, fr_type = ''message'', fr_role = ''assistant'',
                     fr_content = [\<lparr>block_type = ''text'', block_text = dict_get (resp_content r) []\<rparr>],
                     fr_model = ''moonshotai/kimi-k2-instruct'', fr_stop_reason = ''end_turn'',
                     fr_usage = \<lparr>input_tokens = dict_get (prompt_tokens u) 100,
                                 output_tokens = dict_get (completion_tokens u) 50\<rparr>\<rparr>)"
proof -
  let ?ts = "convert_tools_to_openai (tools req)"
  let ?v = "\<lparr>conversation_messages = conv, iteration = 0, total_tool_calls = 0, last_response = None\<rparr>"
  let ?s0 = "send_progress_update Starting s"
  have running: "iteration ?v < MAX_TOOL_ITERATIONS"
    by (simp add: MAX_TOOL_ITERATIONS_def)
  have reply: "groq_reply e (iteration ?v + 1) (groq_payload (conversation_messages ?v) ?ts req) = Some r"
    using assms(2) by (simp add: groq_reply_def)
  have loop: "conversation_loop e req ?ts ?v ?s0 =
      (Inr \<lparr>conversation_messages = conv @ [Assistant (dict_get (resp_content r) []) (resp_tool_calls r)],
            iteration = 1, total_tool_calls = 0, last_response = Some r\<rparr>,
       after_call req ?ts ?v ?s0)"
    using conversation_loop_answered [OF running reply assms(3), of ?s0] by simp
  have counted: "length (posted (snd (process_conversation_with_streaming e req message_id s))) =
      length (posted s) + 1"
    and idle: "executed (snd (process_conversation_with_streaming e req message_id s)) = executed s"
    using loop assms(1)
    by (simp_all add: process_conversation_session after_call_def send_progress_update_def
          send_event_def)
  have answered: "fst (process_conversation_with_streaming e req message_id s) =
      (case usage_read r of
         None \<Rightarrow> Inl (AttributeError ''NoneType'')
       | Some u \<Rightarrow>
           Inr \<lparr>fr_id = message_id, fr_type = ''message'', fr_role = ''assistant'',
                fr_content = [\<lparr>block_type = ''text'', block_text = dict_get (resp_content r) []\<rparr>],
                fr_model = ''moonshotai/kimi-k2-instruct'', fr_stop_reason = ''end_turn'',
                fr_usage = \<lparr>input_tokens = dict_get (prompt_tokens u) 100,
                            output_tokens = dict_get (completion_tokens u) 50\<rparr>\<rparr>)"
    using loop assms(1)
    by (simp add: process_conversation_with_streaming_def usage_read_def last_message_nonempty
          split: option.splits)
  from loop counted idle answered show ?thesis
    by simp
qed

text \<open>The backend that answers at once.\<close>

theorem answer_without_tools_single_iteration_witness:
  "convert_messages_to_openai (py_str (scenario_env answer_backend)) (messages (list_files_request False)) =
     Inr [Converted ''user'' ''list files'']
   \<and> post (scenario_env answer_backend) 1
      (groq_payload [Converted ''user'' ''list files'']
         (convert_tools_to_openai (tools (list_files_request False))) (list_files_request False)) =
     Status 200 (Some plain_reply)
   \<and> requested_calls (resp_tool_calls plain_reply) = []
   \<and> length (posted (snd (process_conversation_with_streaming (scenario_env answer_backend)
         (list_files_request False) ''msg_0a1b2c3d'' new_session))) = 1
   \<and> executed (snd (process_conversation_with_streaming (scenario_env answer_backend)
         (list_files_request False) ''msg_0a1b2c3d'' new_session)) = []"
proof -
  have c: "convert_messages_to_openai (py_str (scenario_env answer_backend))
      (messages (list_files_request False)) = Inr [Converted ''user'' ''list files'']"
    by code_simp
  have a: "post (scenario_env answer_backend) 1
      (groq_payload [Converted ''user'' ''list files'']
         (convert_tools_to_openai (tools (list_files_request False))) (list_files_request False)) =
     Status 200 (Some plain_reply)"
    by (simp add: scenario_env_def answer_backend_def)
  have b: "requested_calls (resp_tool_calls plain_reply) = []"
    by (simp add: plain_reply_def)
  from answer_without_tools_single_iteration
    [OF c a b, where message_id = "''msg_0a1b2c3d''" and s = new_session] c a b
  show ?thesis
    by (simp add: new_session_def)
qed

subsection \<open>A failed backend call\<close>

text \<open>
  When the first backend call fails, \<^verbatim>\<open>response\<close> is \<^verbatim>\<open>None\<close> after the loop and building the
  final response raises: \<^verbatim>\<open>IndexError\<close> on an empty conversation, \<^verbatim>\<open>AttributeError\<close> at
  \<^verbatim>\<open>response.get\<close> otherwise. A request that is not streamed is then answered with status 500.
\<close>

lemma process_backend_failure:
  assumes conv: "convert_messages_to_openai (py_str e) (messages req) = Inr conv"
    and failed: "groq_reply e 1 (groq_payload conv (convert_tools_to_openai (tools req)) req) = None"
  shows "fst (process_conversation_with_streaming e req message_id s) =
     Inl (if conv = [] then IndexError else AttributeError ''NoneType'')"
proof -
  let ?v = "\<lparr>conversation_messages = conv, iteration = 0, total_tool_calls = 0, last_response = None\<rparr>"
  have "iteration ?v < MAX_TOOL_ITERATIONS"
    by (simp add: MAX_TOOL_ITERATIONS_def)
  from conversation_loop_failed [OF this] failed
  have "fst (conversation_loop e req (convert_tools_to_openai (tools req)) ?v
          (send_progress_update Starting s)) =
        Inr (?v\<lparr>iteration := 1, last_response := None\<rparr>)"
    by simp
  with conv show ?thesis
    by (cases conv)
       (simp_all add: process_conversation_with_streaming_def Let_def case_prod_beta)
qed

lemma complete_conversation_backend_failure:
  assumes "convert_messages_to_openai (py_str e) (messages req) = Inr conv"
    and "groq_reply e 1 (groq_payload conv (convert_tools_to_openai (tools req)) req) = None"
  shows "\<exists>msg. fst (handle_complete_conversation e req s) = HttpError 500 msg"
  using process_backend_failure [OF assms]
  by (simp add: handle_complete_conversation_def execute_complete_conversation_def case_prod_beta)

text \<open>
  Claim C1 says that a request that is not streamed still gets a JSON response with empty
  text and the usage counters 100 and 50 when every backend call fails. The code does not
  do that: with a backend that always times out, the request to list files is answered
  with status 500 and the message of the \<^verbatim>\<open>AttributeError\<close>.
\<close>

theorem backend_timeout_is_http_500:
  "fst (handle_messages (scenario_env timeout_backend) (list_files_request False) new_session) =
     Some (HttpError 500 (error_text (AttributeError ''NoneType'')))"
  by code_simp

subsection \<open>The final text at the iteration ceiling\<close>

text \<open>
  Claim C2 says that the final answer text is always the text of the last assistant entry
  of the conversation, never the content of a tool entry. The code takes the last entry of
  the conversation, whatever its role: with a backend that asks for \<^verbatim>\<open>LS\<close> in each of the 15
  iterations and says \<^verbatim>\<open>checking\<close> each time, the final text is the listing that the last
  tool call returned.
\<close>

theorem final_text_at_ceiling_is_tool_result:
  "resp_content (ls_call ''{}'') = Value ''checking''
   \<and> fst (handle_messages (scenario_env (tool_backend ''{}'')) (list_files_request False) new_session) =
     Some (JsonBody
        \<lparr>fr_id = ''msg_0a1b2c3d'', fr_type = ''message'', fr_role = ''assistant'',
         fr_content = [\<lparr>block_type = ''text'', block_text = Some (''- /work/'' @ [CHR 0x0A])\<rparr>],
         fr_model = ''moonshotai/kimi-k2-instruct'', fr_stop_reason = ''end_turn'',
         fr_usage = \<lparr>input_tokens = Some 12, output_tokens = Some 7\<rparr>\<rparr>)"
proof -
  let ?e = "scenario_env (tool_backend ''{}'')"
  have conv: "convert_messages_to_openai (py_str ?e) (messages (list_files_request False)) =
      Inr [Converted ''user'' ''list files'']"
    by code_simp
  have always: "\<exists>r. groq_reply ?e n p = Some r \<and> asks_for_tools ?e r" for n p
    using scenario_asks_for_tools
    by (simp add: groq_reply_def scenario_env_def tool_backend_def)
  from process_at_ceiling [of ?e "list_files_request False" _ "''msg_0a1b2c3d''" new_session,
      OF always conv]
  obtain p r where r: "groq_reply ?e MAX_TOOL_ITERATIONS p = Some r"
    and run: "fst (process_conversation_with_streaming ?e (list_files_request False) ''msg_0a1b2c3d'' new_session) =
        (case usage_read r of
           None \<Rightarrow> Inl (AttributeError ''NoneType'')
         | Some u \<Rightarrow> Inr (response_at_ceiling ?e ''msg_0a1b2c3d'' r u))"
    by blast
  from r have r_def: "r = ls_call ''{}''"
    by (simp add: groq_reply_def scenario_env_def tool_backend_def)
  have usage: "usage_read r = Some \<lparr>prompt_tokens = Value 12, completion_tokens = Value 7\<rparr>"
    by (simp add: r_def usage_read_def ls_call_def)
  have "response_at_ceiling ?e ''msg_0a1b2c3d'' r
        \<lparr>prompt_tokens = Value 12, completion_tokens = Value 7\<rparr> =
      \<lparr>fr_id = ''msg_0a1b2c3d'', fr_type = ''message'', fr_role = ''assistant'',
       fr_content = [\<lparr>block_type = ''text'', block_text = Some (''- /work/'' @ [CHR 0x0A])\<rparr>],
       fr_model = ''moonshotai/kimi-k2-instruct'', fr_stop_reason = ''end_turn'',
       fr_usage = \<lparr>input_tokens = Some 12, output_tokens = Some 7\<rparr>\<rparr>"
    by (simp add: r_def response_at_ceiling_def tool_entry_of_def ls_call_def scenario_env_def
          scenario_json_loads_def execute_tool_locally_def implemented_tools_def)
  moreover have "\<not> stream (list_files_request False)"
    by (simp add: list_files_request_def)
  moreover have "new_message_id ?e = ''msg_0a1b2c3d''"
    by (simp add: scenario_env_def)
  moreover have "resp_content (ls_call ''{}'') = Value ''checking''"
    by (simp add: ls_call_def)
  ultimately show ?thesis
    using run usage
    by (simp add: handle_messages_def handle_complete_conversation_def
          execute_complete_conversation_def case_prod_beta)
qed

subsection \<open>Frames of a request that is not streamed\<close>

text \<open>Every request that is not streamed sends at least the first progress notification.\<close>

lemma complete_conversation_sends_frames:
  "\<exists>ds. frames (snd (handle_complete_conversation e req s)) =
      frames s @ ContentBlockDelta Starting # ds"
proof -
  let ?s0 = "send_progress_update Starting s"
  let ?s' = "snd (process_conversation_with_streaming e req (new_message_id e) s)"
  have "snd (handle_complete_conversation e req s) = ?s'"
    by (simp add: handle_complete_conversation_def execute_complete_conversation_def
          case_prod_beta split: sum.splits)
  moreover have "adds_only_deltas ?s0 ?s'"
  proof (cases "convert_messages_to_openai (py_str e) (messages req)")
    case (Inl err)
    then show ?thesis
      by (simp add: process_conversation_session adds_only_deltas_refl)
  next
    case (Inr conv)
    then show ?thesis
      by (simp add: process_conversation_session conversation_loop_deltas)
  qed
  ultimately show ?thesis
    by (auto simp: adds_only_deltas_def send_progress_update_def send_event_def)
qed

text \<open>
  Claim C3 says that a request that is not streamed emits no protocol frame, the only
  output being the JSON body. The code runs the same orchestration with the same
  \<^verbatim>\<open>_send_progress_update\<close>: the request below is not streamed, gets its JSON body, and two
  text deltas have been written to the client before it.
\<close>

theorem complete_conversation_writes_frames:
  "\<not> stream (list_files_request False)
   \<and> handle_messages (scenario_env answer_backend) (list_files_request False) new_session =
     (Some (JsonBody
        \<lparr>fr_id = ''msg_0a1b2c3d'', fr_type = ''message'', fr_role = ''assistant'',
         fr_content = [\<lparr>block_type = ''text'',
                        block_text = Some (''Done.'' @ [CHR 0x0A, CHR 0x0A] @ ''No files.'')\<rparr>],
         fr_model = ''moonshotai/kimi-k2-instruct'', fr_stop_reason = ''end_turn'',
         fr_usage = \<lparr>input_tokens = Some 12, output_tokens = Some 7\<rparr>\<rparr>),
      \<lparr>frames = [ContentBlockDelta Starting, ContentBlockDelta (Thinking 1)],
       posted = [groq_payload [Converted ''user'' ''list files'']
                   (convert_tools_to_openai (tools (list_files_request False)))
                   (list_files_request False)],
       executed = []\<rparr>)"
  by code_simp

subsection \<open>Tool calls whose arguments do not parse\<close>

text \<open>
  Claim C5 says that every tool call of a backend response gets exactly one tool entry with
  its identifier, and that no failure of a tool aborts the loop or becomes an error of the
  orchestration. That holds when the argument strings parse (\<open>execute_tool_calls_entries\<close>,
  and \<open>execute_tool_locally\<close> returns text whatever the tool does). It fails for a tool call
  whose argument string is not JSON: no entry is appended for \<^verbatim>\<open>call_1\<close>, no tool runs, the
  request that is not streamed is answered with status 500 and the streamed one ends with
  an error frame.
\<close>

theorem malformed_arguments_abort_request:
  "execute_tool_calls (scenario_env (tool_backend ''not json'')) 1 0
       [\<lparr>call_id = ''call_1'', call_name = ''LS'', call_arguments = ''not json''\<rparr>]
       [Converted ''user'' ''list files''] new_session =
     (Inl (JSONDecodeError ''Expecting value: line 1 column 1 (char 0)''), new_session)
   \<and> fst (handle_messages (scenario_env (tool_backend ''not json'')) (list_files_request False) new_session) =
       Some (HttpError 500 ''Expecting value: line 1 column 1 (char 0)'')
   \<and> executed (snd (handle_messages (scenario_env (tool_backend ''not json'')) (list_files_request False) new_session)) = []
   \<and> frames (snd (handle_messages (scenario_env (tool_backend ''not json'')) (list_files_request True) new_session)) =
       [MessageStart ''msg_0a1b2c3d'', ContentBlockStart, ContentBlockDelta Starting,
        ContentBlockDelta (Thinking 1), ContentBlockDelta (Executing [''LS'']),
        ErrorFrame ''Expecting value: line 1 column 1 (char 0)'']"
  by code_simp

subsection \<open>The words of the final text\<close>

lemma split_words_word:
  "list_all (\<lambda>c. \<not> isspace c) w \<Longrightarrow> split_words acc (w @ cs) = split_words (acc @ w) cs"
  by (induction w arbitrary: acc) simp_all

lemma isspace_space: "isspace (CHR '' '')"
  by (simp add: isspace_def)

lemma split_words_join:
  "list_all is_word ws \<Longrightarrow> split_words [] (str_join '' '' ws) = ws"
proof (induction ws rule: spaced.induct)
  case 1
  show ?case by simp
next
  case (2 w)
  then have "split_words [] (w @ []) = split_words ([] @ w) []"
    by (intro split_words_word) (simp add: is_word_def)
  with 2 show ?case
    by (simp add: is_word_def)
next
  case (3 w w' ws)
  then have w: "w \<noteq> []" "list_all (\<lambda>c. \<not> isspace c) w"
    by (simp_all add: is_word_def)
  have "split_words [] (w @ CHR '' '' # str_join '' '' (w' # ws)) =
      split_words ([] @ w) (CHR '' '' # str_join '' '' (w' # ws))"
    using w(2) by (rule split_words_word)
  also have "\<dots> = w # split_words [] (str_join '' '' (w' # ws))"
    using w(1) by (simp add: isspace_space)
  also have "\<dots> = w # w' # ws"
    using 3 by simp
  finally show ?case
    by simp
qed

lemma str_join_words_nonempty:
  "list_all is_word ws \<Longrightarrow> ws \<noteq> [] \<Longrightarrow> str_join '' '' ws \<noteq> []"
  by (cases ws rule: spaced.cases) (simp_all add: is_word_def)

text \<open>
  Claim C9, as amended. For a final answer text that is not empty and consists of words
  separated by single spaces, the emitter sends one text delta carrying the paragraph
  separator and then the text as one delta for each word, the word followed by a trailing
  space except for the last word, so that the concatenation of the word deltas equals the
  final answer text. For an empty or null final answer text the emitter sends nothing.
\<close>

theorem stream_text_naturally_words:
  "frames (stream_text_naturally None s) = frames s
   \<and> frames (stream_text_naturally (Some []) s) = frames s
   \<and> (list_all is_word ws \<and> ws \<noteq> [] \<longrightarrow>
        frames (stream_text_naturally (Some (str_join '' '' ws)) s) =
          frames s @ ContentBlockDelta (Plain [CHR 0x0A, CHR 0x0A]) #
            map (\<lambda>w. ContentBlockDelta (Plain w)) (spaced ws)
        \<and> concat (spaced ws) = str_join '' '' ws)"
proof (intro conjI impI)
  show "frames (stream_text_naturally None s) = frames s"
    by (simp add: stream_text_naturally_def)
  show "frames (stream_text_naturally (Some []) s) = frames s"
    by (simp add: stream_text_naturally_def)
next
  assume words: "list_all is_word ws \<and> ws \<noteq> []"
  then have "str_split (str_join '' '' ws) = ws" and "str_join '' '' ws \<noteq> []"
    by (simp_all add: str_split_def split_words_join str_join_words_nonempty)
  then show "frames (stream_text_naturally (Some (str_join '' '' ws)) s) =
      frames s @ ContentBlockDelta (Plain [CHR 0x0A, CHR 0x0A]) #
        map (\<lambda>w. ContentBlockDelta (Plain w)) (spaced ws)"
    by (simp add: stream_text_naturally_frames)
  show "concat (spaced ws) = str_join '' '' ws"
    by (rule concat_spaced)
qed

text \<open>The final answer text \<^verbatim>\<open>No files.\<close>: the separator, then the deltas \<^verbatim>\<open>No \<close> and \<^verbatim>\<open>files.\<close>\<close>

theorem stream_text_naturally_words_witness:
  "list_all is_word [''No'', ''files.''] \<and> [''No'', ''files.''] \<noteq> []
   \<and> frames (stream_text_naturally (Some ''No files.'') new_session) =
       [ContentBlockDelta (Plain [CHR 0x0A, CHR 0x0A]),
        ContentBlockDelta (Plain ''No ''), ContentBlockDelta (Plain ''files.'')]
   \<and> ''No '' @ ''files.'' = ''No files.''"
proof -
  have words: "list_all is_word [''No'', ''files.''] \<and> [''No'', ''files.''] \<noteq> []"
    by (simp add: is_word_def isspace_def)
  have "frames (stream_text_naturally (Some (str_join '' '' [''No'', ''files.''])) new_session) =
      frames new_session @ ContentBlockDelta (Plain [CHR 0x0A, CHR 0x0A]) #
        map (\<lambda>w. ContentBlockDelta (Plain w)) (spaced [''No'', ''files.''])"
    using stream_text_naturally_words [where s = new_session and ws = "[''No'', ''files.'']"] words
    by blast
  with words show ?thesis
    by (simp add: new_session_def)
qed

text \<open>
  Claim C9 as stated fails for the empty final answer text: the backend answers with the
  empty string, and the streamed request gets no text delta after the progress
  notifications, not even the paragraph separator.
\<close>

theorem stream_text_naturally_words_counterexample:
  "stream (list_files_request True)
   \<and> resp_content empty_reply = Value []
   \<and> frames (snd (handle_messages (scenario_env empty_answer_backend) (list_files_request True) new_session)) =
       [MessageStart ''msg_0a1b2c3d'', ContentBlockStart,
        ContentBlockDelta Starting, ContentBlockDelta (Thinking 1),
        ContentBlockStop, MessageDelta ''end_turn'' \<lparr>input_tokens = Some 12, output_tokens = Some 0\<rparr>,
        MessageStop]"
  by code_simp

text \<open>
  A final answer text with other whitespace is not rebuilt by the word deltas: the backend
  answers with two paragraphs, and the deltas of the streamed request put a single space
  where the answer has the paragraph break. The same answer is returned as it is when the
  request is not streamed.
\<close>

lemma paragraph_break_lost_when_streamed:
  "resp_content plain_reply = Value (''Done.'' @ [CHR 0x0A, CHR 0x0A] @ ''No files.'')
   \<and> frames (snd (handle_messages (scenario_env answer_backend) (list_files_request True) new_session)) =
       [MessageStart ''msg_0a1b2c3d'', ContentBlockStart,
        ContentBlockDelta Starting, ContentBlockDelta (Thinking 1),
        ContentBlockDelta (Plain [CHR 0x0A, CHR 0x0A]),
        ContentBlockDelta (Plain ''Done. ''), ContentBlockDelta (Plain ''No ''),
        ContentBlockDelta (Plain ''files.''),
        ContentBlockStop, MessageDelta ''end_turn'' \<lparr>input_tokens = Some 12, output_tokens = Some 7\<rparr>,
        MessageStop]
   \<and> ''Done. '' @ ''No '' @ ''files.'' \<noteq> ''Done.'' @ [CHR 0x0A, CHR 0x0A] @ ''No files.''"
  by code_simp

end
